theory Spec2Isabelle
  imports Complex_Main "HOL-Library.Sublist" "HOL-Library.AList"
begin

section \<open>Outcomes of Python code\<close>

text \<open>
  The script \<^verbatim>\<open>access_script.py\<close> is one trial of the optimiser: it builds a case
  from a template, runs external stages, reads two time series and saves an error
  vector. Python floats are modelled as \<^typ>\<open>real\<close> (no rounding, no NaN, no infinity),
  file contents and paths as \<^typ>\<open>string\<close>.

  A statement of the script either continues normally or stops the trial. It stops by
  an uncaught exception, by \<^verbatim>\<open>os._exit\<close> (which ends the interpreter at once and is not
  an exception), or by waiting for a child process that never exits.
\<close>

datatype py_exception =
    IndexError
  | KeyError
  | TypeError
  | ValueError
  | ZeroDivisionError
  | AssertionError
  | OSError
  | RuntimeError string
  | CalledProcessError int

datatype halt =
    Raised py_exception
  | Os_exit int
  | Blocked

definition bindE :: "halt + 'a \<Rightarrow> ('a \<Rightarrow> halt + 'b) \<Rightarrow> halt + 'b" where
  "bindE m f = (case m of Inl h \<Rightarrow> Inl h | Inr x \<Rightarrow> f x)"

fun mapE :: "('a \<Rightarrow> halt + 'b) \<Rightarrow> 'a list \<Rightarrow> halt + 'b list" where
  "mapE f [] = Inr []"
| "mapE f (x # xs) = bindE (f x) (\<lambda>y. bindE (mapE f xs) (\<lambda>ys. Inr (y # ys)))"

text \<open>
  The subscript \<^verbatim>\<open>xs[i]\<close> of a list or tuple of length \<open>n\<close>: the indices \<open>0\<close> to \<open>n - 1\<close>
  name the elements from the front, the indices \<open>-1\<close> down to \<open>-n\<close> name them from the
  back, and every other index raises \<^verbatim>\<open>IndexError\<close>.
\<close>

definition getitem :: "'a list \<Rightarrow> int \<Rightarrow> halt + 'a" where
  "getitem xs i =
     (if 0 \<le> i \<and> i < int (length xs) then Inr (xs ! nat i)
      else if i < 0 \<and> - int (length xs) \<le> i then Inr (xs ! nat (int (length xs) + i))
      else Inl (Raised IndexError))"

section \<open>The parameter binder\<close>

text \<open>
  \<^verbatim>\<open>
  def create_parameters(**kw):
      variables = list(kw.keys())
      minimums = [kw[v][0] for v in variables]
      maximums = [kw[v][1] for v in variables]
      values = [(kw[v][2] if (len(kw[v]) == 3) else ((kw[v][0] + kw[v][1]) / 2)) for v in variables]
      return coexist.create_parameters(variables, minimums, maximums, values)
  \<close>
  The keyword arguments are an association list in the order they were given (a Python
  dict keeps insertion order, and a keyword cannot be given twice), so \<^verbatim>\<open>kw[v]\<close> for the
  keys \<^verbatim>\<open>v\<close> in order is the list of the entries' values. The library function
  \<^verbatim>\<open>coexist.create_parameters\<close> is outside the repository: the model returns the four
  lists handed to it.
\<close>

record coexist_args =
  arg_variables :: "string list"
  arg_minimums :: "real list"
  arg_maximums :: "real list"
  arg_values :: "real list"

definition bound_value :: "real list \<Rightarrow> halt + real" where
  "bound_value t =
     (if length t = 3 then getitem t 2
      else bindE (getitem t 0) (\<lambda>lo. bindE (getitem t 1) (\<lambda>hi. Inr ((lo + hi) / 2))))"

definition create_parameters :: "(string \<times> real list) list \<Rightarrow> halt + coexist_args" where
  "create_parameters kw =
     (let variables = map fst kw in
      bindE (mapE (\<lambda>t. getitem t 0) (map snd kw)) (\<lambda>minimums.
      bindE (mapE (\<lambda>t. getitem t 1) (map snd kw)) (\<lambda>maximums.
      bindE (mapE bound_value (map snd kw)) (\<lambda>vals.
      Inr \<lparr>arg_variables = variables, arg_minimums = minimums,
           arg_maximums = maximums, arg_values = vals\<rparr>))))"

section \<open>Time series and the windowed mean\<close>

text \<open>
  \<^verbatim>\<open>np.loadtxt\<close> returns a two-dimensional array for a file of several rows and
  several columns, and a one-dimensional array otherwise (a single row, a single column,
  or no data at all). Indexing a one-dimensional array with two indices raises
  \<^verbatim>\<open>IndexError\<close>, as does a row or column index out of range.
\<close>

datatype ndarray = Array1 "real list" | Array2 "real list list"

text \<open>\<^verbatim>\<open>data[:, j]\<close>\<close>

definition column :: "ndarray \<Rightarrow> int \<Rightarrow> halt + real list" where
  "column a j =
     (case a of
        Array1 xs \<Rightarrow> Inl (Raised IndexError)
      | Array2 rows \<Rightarrow> mapE (\<lambda>r. getitem r j) rows)"

text \<open>\<^verbatim>\<open>data[i, j]\<close>\<close>

definition element :: "ndarray \<Rightarrow> int \<Rightarrow> int \<Rightarrow> halt + real" where
  "element a i j =
     (case a of
        Array1 xs \<Rightarrow> Inl (Raised IndexError)
      | Array2 rows \<Rightarrow> bindE (getitem rows i) (\<lambda>r. getitem r j))"

text \<open>\<^verbatim>\<open>xs[mask]\<close> for a boolean mask of the same length.\<close>

definition select :: "bool list \<Rightarrow> 'a list \<Rightarrow> 'a list" where
  "select sel xs = map snd (filter fst (zip sel xs))"

text \<open>\<^verbatim>\<open>xs.mean()\<close>\<close>

definition mean :: "real list \<Rightarrow> real" where
  "mean xs = sum_list xs / real (length xs)"

text \<open>
  \<^verbatim>\<open>
  time_selection = data[:, 0] > data[-1, 0] - 1
  epsilon = data[time_selection, 1].mean()
  \<close>
\<close>

definition windowed_mean :: "ndarray \<Rightarrow> halt + real" where
  "windowed_mean data =
     bindE (column data 0) (\<lambda>times.
     bindE (element data (-1) 0) (\<lambda>final.
     let time_selection = map (\<lambda>t. t > final - 1) times in
     bindE (column data 1) (\<lambda>vals.
     Inr (mean (select time_selection vals)))))"

section \<open>The world of a trial\<close>

subsection \<open>File system\<close>

text \<open>
  A path is the string the script builds; two different strings are two different
  paths (no normalisation of \<^verbatim>\<open>.\<close>, \<^verbatim>\<open>..\<close> or doubled separators). A path names a
  regular file with its content, a directory, or nothing.
\<close>

datatype node = File string | Dir

type_synonym fs = "string \<Rightarrow> node option"

text \<open>\<^verbatim>\<open>os.path.dirname\<close>: everything before the last separator.\<close>

definition dirname :: "string \<Rightarrow> string" where
  "dirname p = rev (drop 1 (dropWhile (\<lambda>c. c \<noteq> CHR ''/'') (rev p)))"

subsection \<open>External commands\<close>

text \<open>
  An external command is opaque. What the supervisor can observe of a child process is:
  whether and when it exits by itself, with which status, whether and when it dies after
  the termination signal, and what it has done to the file system, when it ran to its end
  and when it was stopped.
\<close>

record process =
  exits_after :: "real option"
  returncode :: int
  dies_after_term :: "real option"
  effect :: "fs \<Rightarrow> fs"
  effect_stopped :: "fs \<Rightarrow> fs"

text \<open>\<^verbatim>\<open>process.wait(timeout=t)\<close> returns, rather than raising \<^verbatim>\<open>TimeoutExpired\<close>.\<close>

definition exits_within :: "process \<Rightarrow> real \<Rightarrow> bool" where
  "exits_within p t = (case exits_after p of None \<Rightarrow> False | Some d \<Rightarrow> d \<le> t)"

text \<open>
  After the termination signal sent at time \<open>t\<close>, the second \<^verbatim>\<open>process.wait(timeout=g)\<close>
  returns when the process has died of the signal within \<open>g\<close>, or has exited by itself
  in the meantime.
\<close>

definition dead_within :: "process \<Rightarrow> real \<Rightarrow> real \<Rightarrow> bool" where
  "dead_within p t g =
     ((case dies_after_term p of None \<Rightarrow> False | Some k \<Rightarrow> k \<le> g) \<or> exits_within p (t + g))"

subsection \<open>Libraries and the operating system\<close>

text \<open>
  Functions of the interpreter, of the operating system and of the libraries
  \<^verbatim>\<open>glob\<close>, \<^verbatim>\<open>natsort\<close>, \<^verbatim>\<open>numpy\<close>, \<^verbatim>\<open>rtoml\<close> and \<^verbatim>\<open>pickle\<close> are parameters
  of the model. \<open>spawn cmd cwd\<close> is the behaviour of the child process that
  \<^verbatim>\<open>subprocess.Popen(cmd, cwd=cwd)\<close> starts, or \<open>None\<close> when it cannot be started.
\<close>

datatype toml =
    Float real
  | Integer int
  | String string
  | Boolean bool
  | Array "toml list"
  | Table "(string \<times> toml) list"

type_synonym toml_table = "(string \<times> toml) list"

record env =
  sys_executable :: string
  spawn :: "string list \<Rightarrow> string option \<Rightarrow> process option"
  glob :: "fs \<Rightarrow> string \<Rightarrow> string list"
  listdir :: "fs \<Rightarrow> string \<Rightarrow> string list option"
  natsorted :: "string list \<Rightarrow> string list"
  loadtxt :: "string \<Rightarrow> ndarray option"
  toml_load :: "string \<Rightarrow> toml_table option"
  toml_dump :: "toml_table \<Rightarrow> string"
  pickle_dump :: "real list \<Rightarrow> string"

subsection \<open>What a trial does, in order\<close>

text \<open>
  The trace records the lines the script prints and what it does to the outside: the
  processes it starts, waits for and signals, and the files it opens for writing.
\<close>

datatype event =
    Print_running "string list" "string option"
  | Print_running_timeout real "string list"
  | Print_exceeded
  | Print_not_terminated
  | Print_epsilon_average real
  | Print_epsilon_cov real
  | Popen "string list" "string option"
  | Wait "real option"
  | Terminate
  | Kill
  | Open_w string
  | Open_wb string

record state =
  fsys :: fs
  trace :: "event list"

type_synonym 'a prog = "state \<Rightarrow> (halt + 'a) \<times> state"

definition retP :: "'a \<Rightarrow> 'a prog" where
  "retP x = (\<lambda>s. (Inr x, s))"

definition haltP :: "halt \<Rightarrow> 'a prog" where
  "haltP h = (\<lambda>s. (Inl h, s))"

definition raiseP :: "py_exception \<Rightarrow> 'a prog" where
  "raiseP e = haltP (Raised e)"

definition liftE :: "halt + 'a \<Rightarrow> 'a prog" where
  "liftE r = (\<lambda>s. (r, s))"

definition bindP :: "'a prog \<Rightarrow> ('a \<Rightarrow> 'b prog) \<Rightarrow> 'b prog" where
  "bindP m f = (\<lambda>s. case m s of (Inl h, s') \<Rightarrow> (Inl h, s') | (Inr x, s') \<Rightarrow> f x s')"

definition seqP :: "'a prog \<Rightarrow> 'b prog \<Rightarrow> 'b prog" where
  "seqP m n = bindP m (\<lambda>_. n)"

definition emit :: "event \<Rightarrow> unit prog" where
  "emit e = (\<lambda>s. (Inr (), s\<lparr>trace := trace s @ [e]\<rparr>))"

definition modify_fs :: "(fs \<Rightarrow> fs) \<Rightarrow> unit prog" where
  "modify_fs f = (\<lambda>s. (Inr (), s\<lparr>fsys := f (fsys s)\<rparr>))"

subsection \<open>Reading and writing files\<close>

text \<open>\<^verbatim>\<open>with open(path) as f: ... f.read()\<close>\<close>

definition read_file :: "string \<Rightarrow> string prog" where
  "read_file path = (\<lambda>s.
     case fsys s path of
       Some (File c) \<Rightarrow> (Inr c, s)
     | _ \<Rightarrow> (Inl (Raised OSError), s))"

text \<open>
  Opening a path for writing creates the file, or empties it when it exists. It fails
  when the path is a directory, or when the directory it lies in does not exist.
\<close>

definition create_empty :: "string \<Rightarrow> unit prog" where
  "create_empty path = (\<lambda>s.
     if fsys s path = Some Dir \<or> (dirname path \<noteq> [] \<and> fsys s (dirname path) \<noteq> Some Dir)
     then (Inl (Raised OSError), s)
     else (Inr (), s\<lparr>fsys := (fsys s)(path \<mapsto> File [])\<rparr>))"

text \<open>\<^verbatim>\<open>open(path, "w")\<close> and \<^verbatim>\<open>open(path, "wb")\<close>\<close>

definition open_w :: "string \<Rightarrow> unit prog" where
  "open_w path = seqP (emit (Open_w path)) (create_empty path)"

definition open_wb :: "string \<Rightarrow> unit prog" where
  "open_wb path = seqP (emit (Open_wb path)) (create_empty path)"

text \<open>The content written through the open file is in the file when it is closed.\<close>

definition write_close :: "string \<Rightarrow> string \<Rightarrow> unit prog" where
  "write_close path c = modify_fs (\<lambda>f. f(path \<mapsto> File c))"

section \<open>The process supervisor\<close>

text \<open>
  \<^verbatim>\<open>
  def system(cmd, cwd=None):
      if cwd is None:
          print("Running command:", cmd, flush=True)
      else:
          print("Running command:", cmd, "in", cwd, flush=True)
      subprocess.run(cmd, check=True, cwd=cwd)
  \<close>
  \<^verbatim>\<open>subprocess.run\<close> starts the process and waits for it without a timeout; with
  \<^verbatim>\<open>check=True\<close> a non-zero exit status raises \<^verbatim>\<open>CalledProcessError\<close>.
\<close>

definition popen :: "env \<Rightarrow> string list \<Rightarrow> string option \<Rightarrow> process prog" where
  "popen E cmd cwd =
     (case spawn E cmd cwd of
        None \<Rightarrow> raiseP OSError
      | Some p \<Rightarrow> seqP (emit (Popen cmd cwd)) (retP p))"

definition subprocess_run_check :: "env \<Rightarrow> string list \<Rightarrow> string option \<Rightarrow> unit prog" where
  "subprocess_run_check E cmd cwd =
     bindP (popen E cmd cwd) (\<lambda>p.
     seqP (emit (Wait None))
       (case exits_after p of
          None \<Rightarrow> haltP Blocked
        | Some d \<Rightarrow>
            seqP (modify_fs (effect p))
              (if returncode p \<noteq> 0 then raiseP (CalledProcessError (returncode p))
               else retP ())))"

definition system :: "env \<Rightarrow> string list \<Rightarrow> string option \<Rightarrow> unit prog" where
  "system E cmd cwd = seqP (emit (Print_running cmd cwd)) (subprocess_run_check E cmd cwd)"

text \<open>
  \<^verbatim>\<open>
  def system_timeout(cmd, timeout, cwd=None):
      print(f"Running command with timeout {timeout / 3600} h:", cmd, flush=True)

      # Launch the process and wait
      process = subprocess.Popen(cmd, cwd=cwd)
      try:
          process.wait(timeout=timeout)

          # If simulation crashed, propagate the error and stop code
          if process.returncode != 0:
              os._exit(1)                     # Kills thread without raising an exception

      except subprocess.TimeoutExpired:
          print("Process exceeded the timeout. Terminating...")
          process.terminate()                 # Try to terminate the process gracefully
          try:
              process.wait(timeout=10)        # Wait a bit for it to terminate
          except subprocess.TimeoutExpired:
              print("Process did not terminate, killing it...")
              process.kill()                  # Force kill if it did not terminate
          return False
      return True
  \<close>
\<close>

definition system_timeout :: "env \<Rightarrow> string list \<Rightarrow> real \<Rightarrow> string option \<Rightarrow> bool prog" where
  "system_timeout E cmd timeout cwd =
     seqP (emit (Print_running_timeout (timeout / 3600) cmd))
    (bindP (popen E cmd cwd) (\<lambda>process.
     seqP (emit (Wait (Some timeout)))
       (if exits_within process timeout then
          seqP (modify_fs (effect process))
            (if returncode process \<noteq> 0 then haltP (Os_exit 1) else retP True)
        else
          seqP (emit Print_exceeded)
         (seqP (emit Terminate)
         (seqP (emit (Wait (Some 10)))
         (seqP (if dead_within process timeout 10 then retP ()
                else seqP (emit Print_not_terminated) (emit Kill))
         (seqP (modify_fs (effect_stopped process))
               (retP False))))))))"

section \<open>The stage pipeline\<close>

text \<open>
  \<^verbatim>\<open>
  def mesh_case(case_path):
      # Create CAD geometry
      system([sys.executable, "script.py"], cwd=f"{case_path}/phase-1-geometry-vessel")
      system([sys.executable, "script.py"], cwd=f"{case_path}/phase-2-geometry-impeller")

      # Mesh; sometimes SHM hangs, so we use a timeout
      timeout = 50 * 60
      finished = system_timeout([sys.executable, "script.py"], timeout, cwd=f"{case_path}/phase-4-mesh")
      if not finished:
          raise RuntimeError("Meshing timed out")

      # Remove phase 2 decomposed mesh, as only the reconstructed one will be used
      system(["rm", "-rf"] + glob(f"{case_path}/phase-2-mesh/case/processor*"))
  \<close>
\<close>

definition stage_cmd :: "env \<Rightarrow> string list" where
  "stage_cmd E = [sys_executable E, ''script.py'']"

definition mesh_cleanup_cmd :: "env \<Rightarrow> string \<Rightarrow> fs \<Rightarrow> string list" where
  "mesh_cleanup_cmd E case_path f =
     [''rm'', ''-rf''] @ glob E f (case_path @ ''/phase-2-mesh/case/processor*'')"

definition mesh_case :: "env \<Rightarrow> string \<Rightarrow> unit prog" where
  "mesh_case E case_path =
     seqP (system E (stage_cmd E) (Some (case_path @ ''/phase-1-geometry-vessel'')))
    (seqP (system E (stage_cmd E) (Some (case_path @ ''/phase-2-geometry-impeller'')))
    (let timeout = 50 * 60 in
     bindP (system_timeout E (stage_cmd E) timeout (Some (case_path @ ''/phase-4-mesh''))) (\<lambda>finished.
     seqP (if \<not> finished then raiseP (RuntimeError ''Meshing timed out'') else retP ())
          (\<lambda>s. system E (mesh_cleanup_cmd E case_path (fsys s)) None s))))"

text \<open>
  \<^verbatim>\<open>
  def run_case(case_path):
      # Stop CFD after 11 hours if it did not finish...
      timeout = 11 * 60 * 60
      system_timeout([sys.executable, "script.py"], timeout, cwd=f"{case_path}/phase-5-cfd")

      # Remove phase 4 and 5 reconstructed meshes, as they are available decomposed in phase 5
      system(["rm", "-rf", "constant/polyMesh"], cwd=f"{case_path}/phase-4-mesh/case")
      system(["rm", "-rf", "constant/polyMesh"], cwd=f"{case_path}/phase-5-cfd/case")
  \<close>
\<close>

definition run_case :: "env \<Rightarrow> string \<Rightarrow> unit prog" where
  "run_case E case_path =
     (let timeout = 11 * 60 * 60 in
      seqP (system_timeout E (stage_cmd E) timeout (Some (case_path @ ''/phase-5-cfd'')))
     (seqP (system E [''rm'', ''-rf'', ''constant/polyMesh''] (Some (case_path @ ''/phase-4-mesh/case'')))
           (system E [''rm'', ''-rf'', ''constant/polyMesh''] (Some (case_path @ ''/phase-5-cfd/case'')))))"

section \<open>The case builder\<close>

subsection \<open>Copying the template\<close>

text \<open>
  \<^verbatim>\<open>shutil.copytree(src, dst, dirs_exist_ok=True)\<close> makes \<open>dst\<close> a directory and copies
  every file and directory below \<open>src\<close> to the same relative path below \<open>dst\<close>; what is
  already below \<open>dst\<close> stays unless a copied file replaces it. It fails when \<open>src\<close> is not a
  directory, when \<open>dst\<close> is a regular file, and when a file would have to replace a
  directory or a directory a file. The model is for a destination outside the source
  tree; the directories above \<open>dst\<close> are left as they are, and the state that a failed copy
  leaves behind is the state before the copy.
\<close>

definition under :: "string \<Rightarrow> string \<Rightarrow> bool" where
  "under d p = prefix (d @ ''/'') p"

definition is_file :: "node option \<Rightarrow> bool" where
  "is_file n = (case n of Some (File c) \<Rightarrow> True | _ \<Rightarrow> False)"

definition copy_conflict :: "fs \<Rightarrow> string \<Rightarrow> string \<Rightarrow> bool" where
  "copy_conflict f src dst =
     (\<exists>p \<in> dom f. under src p \<and>
        ((is_file (f p) \<and> f (dst @ drop (length src) p) = Some Dir) \<or>
         (f p = Some Dir \<and> is_file (f (dst @ drop (length src) p)))))"

definition overlay :: "fs \<Rightarrow> string \<Rightarrow> string \<Rightarrow> fs" where
  "overlay f src dst =
     (\<lambda>p. if p = dst then Some Dir
          else if under dst p then
            (case f (src @ drop (length dst) p) of Some n \<Rightarrow> Some n | None \<Rightarrow> f p)
          else f p)"

definition copytree :: "string \<Rightarrow> string \<Rightarrow> unit prog" where
  "copytree src dst = (\<lambda>s.
     if fsys s src \<noteq> Some Dir \<or> is_file (fsys s dst) \<or> copy_conflict (fsys s) src dst
     then (Inl (Raised OSError), s)
     else (Inr (), s\<lparr>fsys := overlay (fsys s) src dst\<rparr>))"

subsection \<open>Settings documents\<close>

text \<open>
  A settings document is a TOML table: an association list in the order of the document.
  \<^verbatim>\<open>settings[key] = v\<close> replaces the value of a key that is there and appends a new key.
\<close>

definition setitem :: "toml_table \<Rightarrow> string \<Rightarrow> toml \<Rightarrow> toml_table" where
  "setitem t key v = AList.update key v t"

definition getkey :: "toml_table \<Rightarrow> string \<Rightarrow> halt + toml" where
  "getkey t key = (case map_of t key of None \<Rightarrow> Inl (Raised KeyError) | Some v \<Rightarrow> Inr v)"

text \<open>\<^verbatim>\<open>settings[outer][key] = v\<close>\<close>

fun table_set :: "toml \<Rightarrow> string \<Rightarrow> toml \<Rightarrow> halt + toml" where
  "table_set (Table inner) key v = Inr (Table (setitem inner key v))"
| "table_set x key v = Inl (Raised TypeError)"

definition set_in_table :: "toml_table \<Rightarrow> string \<Rightarrow> string \<Rightarrow> toml \<Rightarrow> halt + toml_table" where
  "set_in_table settings outer key v =
     bindE (getkey settings outer) (\<lambda>x.
     bindE (table_set x key v) (\<lambda>x'. Inr (setitem settings outer x')))"

text \<open>
  \<^verbatim>\<open>settings[outer][0][key] = v\<close>: the value of \<open>outer\<close> is expected to be an array whose
  first element is a table. An empty array or string has no element 0
  (\<^verbatim>\<open>IndexError\<close>), a table has no key 0 (\<^verbatim>\<open>KeyError\<close>), and anything else cannot be
  indexed or assigned to (\<^verbatim>\<open>TypeError\<close>).
\<close>

fun first_table_set :: "toml \<Rightarrow> string \<Rightarrow> toml \<Rightarrow> halt + toml" where
  "first_table_set (Array (Table inner # rest)) key v =
     Inr (Array (Table (setitem inner key v) # rest))"
| "first_table_set (Array []) key v = Inl (Raised IndexError)"
| "first_table_set (Array (x # rest)) key v = Inl (Raised TypeError)"
| "first_table_set (Table inner) key v = Inl (Raised KeyError)"
| "first_table_set (String []) key v = Inl (Raised IndexError)"
| "first_table_set x key v = Inl (Raised TypeError)"

definition set_in_first :: "toml_table \<Rightarrow> string \<Rightarrow> string \<Rightarrow> toml \<Rightarrow> halt + toml_table" where
  "set_in_first settings outer key v =
     bindE (getkey settings outer) (\<lambda>x.
     bindE (first_table_set x key v) (\<lambda>x'. Inr (setitem settings outer x')))"

subsection \<open>Parameters and derived quantities\<close>

text \<open>
  \<open>P\<close> is the column \<^verbatim>\<open>parameters["value"]\<close>: \<^verbatim>\<open>parameters["value"][name]\<close> raises
  \<^verbatim>\<open>KeyError\<close> for a name that is not bound.
\<close>

definition param :: "(string \<Rightarrow> real option) \<Rightarrow> string \<Rightarrow> halt + real" where
  "param P name = (case P name of None \<Rightarrow> Inl (Raised KeyError) | Some v \<Rightarrow> Inr v)"

text \<open>Python's \<^verbatim>\<open>round(x)\<close>: to the nearest integer, a tie to the even one.\<close>

definition py_round :: "real \<Rightarrow> int" where
  "py_round x =
     (let f = \<lfloor>x\<rfloor>; d = x - of_int f
      in if d < 1 / 2 then f else if 1 / 2 < d then f + 1 else if even f then f else f + 1)"

text \<open>The quotient \<^verbatim>\<open>a / b\<close> of two Python floats raises when the divisor is zero.\<close>

definition py_div :: "real \<Rightarrow> real \<Rightarrow> halt + real" where
  "py_div a b = (if b = 0 then Inl (Raised ZeroDivisionError) else Inr (a / b))"

text \<open>
  \<^verbatim>\<open>
  vessel_height = 2000
  vessel_base_clearance = 600
  vessel_diameter = 2000

  bottom_clearance = float(parameters["value"]["bottom_clearance"])
  vessel_height0 = vessel_base_clearance - vessel_height * bottom_clearance

  xplace = float(parameters["value"]["xplace"])
  vessel_xtranslate = -vessel_diameter / 2 * xplace

  yplace = float(parameters["value"]["yplace"])
  vessel_ytranslate = -vessel_diameter / 2 * yplace

  impeller_height_ratio = float(parameters["value"]["impeller/height_ratio"])
  impeller_height = vessel_height * (1 - bottom_clearance) * impeller_height_ratio

  max_translate = max(abs(xplace), abs(yplace))
  impeller_diameter_ratio = float(parameters["value"]["impeller/diameter_ratio"])
  impeller_diameter = vessel_diameter * (1 - max_translate) * impeller_diameter_ratio
  \<close>
\<close>

record derived =
  vessel_height0 :: real
  vessel_xtranslate :: real
  vessel_ytranslate :: real
  impeller_height :: real
  impeller_diameter :: real

definition derive :: "(string \<Rightarrow> real option) \<Rightarrow> halt + derived" where
  "derive P =
     (let vessel_height = 2000; vessel_base_clearance = 600; vessel_diameter = 2000 in
      bindE (param P ''bottom_clearance'') (\<lambda>bottom_clearance.
      bindE (param P ''xplace'') (\<lambda>xplace.
      bindE (param P ''yplace'') (\<lambda>yplace.
      bindE (param P ''impeller/height_ratio'') (\<lambda>impeller_height_ratio.
      let max_translate = max \<bar>xplace\<bar> \<bar>yplace\<bar> in
      bindE (param P ''impeller/diameter_ratio'') (\<lambda>impeller_diameter_ratio.
      Inr \<lparr>vessel_height0 = vessel_base_clearance - vessel_height * bottom_clearance,
           vessel_xtranslate = - vessel_diameter / 2 * xplace,
           vessel_ytranslate = - vessel_diameter / 2 * yplace,
           impeller_height = vessel_height * (1 - bottom_clearance) * impeller_height_ratio,
           impeller_diameter =
             vessel_diameter * (1 - max_translate) * impeller_diameter_ratio\<rparr>))))))"

subsection \<open>Rewriting the three documents\<close>

text \<open>
  Each document is read whole, changed and written back whole:
  \<^verbatim>\<open>
  with open(path) as f:
      settings = rtoml.load(f)
  ...
  with open(path, "w") as f:
      rtoml.dump(settings, f)
  \<close>
\<close>

definition edit_settings :: "env \<Rightarrow> string \<Rightarrow> (toml_table \<Rightarrow> halt + toml_table) \<Rightarrow> unit prog" where
  "edit_settings E path change =
     bindP (read_file path) (\<lambda>text.
       case toml_load E text of
         None \<Rightarrow> raiseP ValueError
       | Some settings \<Rightarrow>
           bindP (liftE (change settings)) (\<lambda>settings'.
           seqP (open_w path) (write_close path (toml_dump E settings'))))"

text \<open>
  \<^verbatim>\<open>
  settings["height0"] = vessel_height0
  settings["xtranslate"] = vessel_xtranslate
  settings["ytranslate"] = vessel_ytranslate
  \<close>
\<close>

definition vessel_settings :: "derived \<Rightarrow> toml_table \<Rightarrow> halt + toml_table" where
  "vessel_settings d settings =
     Inr (setitem (setitem (setitem settings
       ''height0'' (Float (vessel_height0 d)))
       ''xtranslate'' (Float (vessel_xtranslate d)))
       ''ytranslate'' (Float (vessel_ytranslate d)))"

text \<open>
  The sixteen assignments to \<^verbatim>\<open>settings["Blades"][0]\<close> and the two to
  \<^verbatim>\<open>settings["FidgetSurface"][0]\<close> have one shape,
  \<^verbatim>\<open>settings[outer][0][key] = float(parameters["value"][prefix + key])\<close>, with
  \<^verbatim>\<open>round\<close> in place of \<^verbatim>\<open>float\<close> for two of them. The right-hand side is evaluated
  first. They are listed in the order of the source.
\<close>

datatype conv = As_float | As_round

definition convert :: "conv \<Rightarrow> real \<Rightarrow> toml" where
  "convert c x = (case c of As_float \<Rightarrow> Float x | As_round \<Rightarrow> Integer (py_round x))"

definition blade_keys :: "(string \<times> conv) list" where
  "blade_keys =
     [(''place_rel'', As_float), (''xlen_rel'', As_float), (''ylen_rel'', As_float),
      (''joint_place'', As_float), (''joint_angle'', As_float),
      (''lean_place'', As_float), (''lean_angle'', As_float),
      (''turn_place'', As_float), (''turn_angle'', As_float),
      (''twist'', As_float), (''helix'', As_float), (''curl'', As_float),
      (''around_number'', As_round), (''repeat_number'', As_round),
      (''repeat_heights_equal'', As_float), (''repeat_angles_bias'', As_float)]"

definition fidget_keys :: "(string \<times> conv) list" where
  "fidget_keys = [(''alpha1'', As_float), (''beta1'', As_float)]"

definition assign_first ::
  "(string \<Rightarrow> real option) \<Rightarrow> string \<Rightarrow> string \<Rightarrow> string \<times> conv \<Rightarrow> toml_table \<Rightarrow> halt + toml_table" where
  "assign_first P outer pre kc settings =
     bindE (param P (pre @ fst kc)) (\<lambda>x.
     set_in_first settings outer (fst kc) (convert (snd kc) x))"

fun foldE :: "('a \<Rightarrow> 'b \<Rightarrow> halt + 'b) \<Rightarrow> 'a list \<Rightarrow> 'b \<Rightarrow> halt + 'b" where
  "foldE f [] acc = Inr acc"
| "foldE f (x # xs) acc = bindE (f x acc) (foldE f xs)"

text \<open>
  \<^verbatim>\<open>
  settings["height"] = impeller_height
  settings["diameter"] = impeller_diameter
  settings["Blades"][0]["place_rel"] = float(parameters["value"]["impeller/0/place_rel"])
  ...
  settings["FidgetSurface"][0]["beta1"] = float(parameters["value"]["impeller/fidgetsurface/0/beta1"])
  \<close>
\<close>

definition impeller_settings ::
  "(string \<Rightarrow> real option) \<Rightarrow> derived \<Rightarrow> toml_table \<Rightarrow> halt + toml_table" where
  "impeller_settings P d settings =
     bindE (Inr (setitem (setitem settings
              ''height'' (Float (impeller_height d)))
              ''diameter'' (Float (impeller_diameter d)))) (\<lambda>settings.
     bindE (foldE (assign_first P ''Blades'' ''impeller/0/'') blade_keys settings) (\<lambda>settings.
     foldE (assign_first P ''FidgetSurface'' ''impeller/fidgetsurface/0/'') fidget_keys settings))"

text \<open>
  \<^verbatim>\<open>
  # Allow 50 mm around the impeller for rotation cylinder
  rotation_height0 = -50e-3
  rotation_height1 = impeller_height / 1000 + 50e-3
  rotation_radius = impeller_diameter / 1000 / 2 + 50e-3

  settings["RotationVolume"]["height0"] = rotation_height0
  settings["RotationVolume"]["height1"] = rotation_height1
  settings["RotationVolume"]["radius"] = rotation_radius

  # Keep the same mesh size as for the JM case, where for a rotation radius of 0.5, we had xscale = 0.5
  settings["Mesh"]["xscale"] = 0.5 * 0.5 / rotation_radius
  settings["Mesh"]["yscale"] = 0.5 * 0.5 / rotation_radius
  settings["Mesh"]["zscale"] = 0.5 * 0.5 / rotation_radius
  \<close>
\<close>

definition mesh_settings :: "derived \<Rightarrow> toml_table \<Rightarrow> halt + toml_table" where
  "mesh_settings d settings =
     (let rotation_height0 = - (50 / 1000);
          rotation_height1 = impeller_height d / 1000 + 50 / 1000;
          rotation_radius = impeller_diameter d / 1000 / 2 + 50 / 1000 in
      bindE (set_in_table settings ''RotationVolume'' ''height0'' (Float rotation_height0)) (\<lambda>settings.
      bindE (set_in_table settings ''RotationVolume'' ''height1'' (Float rotation_height1)) (\<lambda>settings.
      bindE (set_in_table settings ''RotationVolume'' ''radius'' (Float rotation_radius)) (\<lambda>settings.
      bindE (py_div (0.5 * 0.5) rotation_radius) (\<lambda>xscale.
      bindE (set_in_table settings ''Mesh'' ''xscale'' (Float xscale)) (\<lambda>settings.
      bindE (py_div (0.5 * 0.5) rotation_radius) (\<lambda>yscale.
      bindE (set_in_table settings ''Mesh'' ''yscale'' (Float yscale)) (\<lambda>settings.
      bindE (py_div (0.5 * 0.5) rotation_radius) (\<lambda>zscale.
      set_in_table settings ''Mesh'' ''zscale'' (Float zscale))))))))))"

text \<open>
  \<^verbatim>\<open>
  def create_case(parameters, trial_path):
      # Copy template into trial directory
      shutil.copytree("Template", trial_path, dirs_exist_ok=True)
      ...
  \<close>
\<close>

definition create_case :: "env \<Rightarrow> (string \<Rightarrow> real option) \<Rightarrow> string \<Rightarrow> unit prog" where
  "create_case E P trial_path =
     seqP (copytree ''Template'' trial_path)
    (bindP (liftE (derive P)) (\<lambda>d.
     seqP (edit_settings E (trial_path @ ''/phase-1-geometry-vessel/settings.toml'')
             (vessel_settings d))
    (seqP (edit_settings E (trial_path @ ''/phase-2-geometry-impeller/settings.toml'')
             (impeller_settings P d))
          (edit_settings E (trial_path @ ''/phase-4-mesh/settings.toml'')
             (mesh_settings d)))))"

section \<open>Result extraction\<close>

text \<open>
  \<^verbatim>\<open>
  cov_dirs = natsorted(os.listdir(f"{trial_path}/phase-5-cfd/case/postProcessing/volFieldValue1.CoV/"))
  latest_cov_path = f"{trial_path}/phase-5-cfd/case/postProcessing/volFieldValue1.CoV/{cov_dirs[-1]}/volFieldValue.dat"
  cov_data = np.loadtxt(latest_cov_path, skiprows=4)
  \<close>
  and the same three lines for \<^verbatim>\<open>volFieldValue1.volAverage\<close>. A directory that cannot be
  listed and a file that cannot be read raise \<^verbatim>\<open>OSError\<close>, an empty listing raises
  \<^verbatim>\<open>IndexError\<close>, a file that is not a table of numbers raises \<^verbatim>\<open>ValueError\<close>.
\<close>

definition metric_dir :: "string \<Rightarrow> string \<Rightarrow> string" where
  "metric_dir trial_path metric =
     trial_path @ ''/phase-5-cfd/case/postProcessing/'' @ metric @ ''/''"

definition load_latest :: "env \<Rightarrow> string \<Rightarrow> string \<Rightarrow> ndarray prog" where
  "load_latest E trial_path metric =
     bindP (\<lambda>s. case listdir E (fsys s) (metric_dir trial_path metric) of
                  None \<Rightarrow> (Inl (Raised OSError), s)
                | Some names \<Rightarrow> (Inr (natsorted E names), s)) (\<lambda>dirs.
     bindP (liftE (getitem dirs (-1))) (\<lambda>latest_dir.
     let latest_path = metric_dir trial_path metric @ latest_dir @ ''/volFieldValue.dat'' in
     bindP (read_file latest_path) (\<lambda>text.
       case loadtxt E text of
         None \<Rightarrow> raiseP ValueError
       | Some data \<Rightarrow> retP data)))"

text \<open>
  \<^verbatim>\<open>
  # Print results
  print("Epsilon average:", epsilon_avg)
  print("Epsilon CoV:", epsilon_cov)

  # Only consider cases that ran for at least 20 seconds
  final_time = avg_data[-1, 0]
  if final_time < 20:
          raise RuntimeError("Simulation did not run for 20 seconds")

  # Cap epsilon CoV at 0.5; below this value, it is not important
  epsilon_cov = max(epsilon_cov, 0.5)

  # Maximise epsilon average and minimise epsilon CoV
  error = [-epsilon_avg, 1 / epsilon_cov]
  \<close>
\<close>

definition error_vector :: "real \<Rightarrow> real \<Rightarrow> real list" where
  "error_vector epsilon_avg epsilon_cov =
     (let epsilon_cov = max epsilon_cov 0.5 in [- epsilon_avg, 1 / epsilon_cov])"

definition extract_results :: "env \<Rightarrow> string \<Rightarrow> real list prog" where
  "extract_results E trial_path =
     bindP (load_latest E trial_path ''volFieldValue1.CoV'') (\<lambda>cov_data.
     bindP (liftE (windowed_mean cov_data)) (\<lambda>epsilon_cov.
     bindP (load_latest E trial_path ''volFieldValue1.volAverage'') (\<lambda>avg_data.
     bindP (liftE (windowed_mean avg_data)) (\<lambda>epsilon_avg.
     seqP (emit (Print_epsilon_average epsilon_avg))
    (seqP (emit (Print_epsilon_cov epsilon_cov))
    (bindP (liftE (element avg_data (-1) 0)) (\<lambda>final_time.
       if final_time < 20
       then raiseP (RuntimeError ''Simulation did not run for 20 seconds'')
       else retP (error_vector epsilon_avg epsilon_cov))))))))"

section \<open>Saving the error vector\<close>

text \<open>
  \<^verbatim>\<open>
  with open(sys.argv[2], "wb") as f:
      pickle.dump(error, f)
  \<close>
  The file is opened at its final path, which creates or empties it, and the pickled
  vector is written through it. The branch that saves \<^verbatim>\<open>extra\<close> is never taken: the
  script binds no variable of that name.
\<close>

definition persist :: "env \<Rightarrow> real list \<Rightarrow> string \<Rightarrow> unit prog" where
  "persist E error result_path =
     seqP (open_wb result_path) (write_close result_path (pickle_dump E error))"

text \<open>
  The file systems that another process can see while the vector is saved, in order:
  after the file has been opened, and after it has been written and closed.
\<close>

definition persist_states :: "env \<Rightarrow> real list \<Rightarrow> string \<Rightarrow> state \<Rightarrow> fs list" where
  "persist_states E error result_path s =
     (case open_wb result_path s of
        (Inl h, s') \<Rightarrow> [fsys s']
      | (Inr u, s') \<Rightarrow>
          [fsys s', fsys (snd (write_close result_path (pickle_dump E error) s'))])"

section \<open>One trial\<close>

text \<open>
  The script as a whole, from the creation of the trial directory on. Its inputs are the
  unpickled \<^verbatim>\<open>parameters\<close>, the trial number \<^verbatim>\<open>access_id\<close> read from the name of the
  parameter file, and the path \<^verbatim>\<open>sys.argv[2]\<close> of the result.
  \<^verbatim>\<open>
  assert os.path.isdir("Simulations")
  trial_path = f"Simulations/sim{access_id:0>4}"
  if not os.path.isdir(trial_path):
      os.mkdir(trial_path)
  ...
  create_case(parameters, trial_path)
  mesh_case(trial_path)
  run_case(trial_path)
  \<close>
  followed by the extraction of the results and the saving of the error vector.
\<close>

fun digits :: "nat \<Rightarrow> string" where
  "digits n =
     (if n < 10 then [''0123456789'' ! n]
      else digits (n div 10) @ [''0123456789'' ! (n mod 10)])"

declare digits.simps [simp del]

text \<open>\<^verbatim>\<open>str(i)\<close>\<close>

definition str_int :: "int \<Rightarrow> string" where
  "str_int i = (if i < 0 then CHR ''-'' # digits (nat (- i)) else digits (nat i))"

text \<open>The format \<^verbatim>\<open>0>4\<close>: filled with zeros on the left up to four characters.\<close>

definition zero_fill4 :: "string \<Rightarrow> string" where
  "zero_fill4 t = replicate (4 - length t) CHR ''0'' @ t"

definition trial_path_of :: "int \<Rightarrow> string" where
  "trial_path_of access_id = ''Simulations/sim'' @ zero_fill4 (str_int access_id)"

definition assert_isdir :: "string \<Rightarrow> unit prog" where
  "assert_isdir path = (\<lambda>s.
     if fsys s path = Some Dir then (Inr (), s) else (Inl (Raised AssertionError), s))"

text \<open>\<^verbatim>\<open>os.mkdir\<close>\<close>

definition mkdir :: "string \<Rightarrow> unit prog" where
  "mkdir path = (\<lambda>s.
     if fsys s path \<noteq> None \<or> (dirname path \<noteq> [] \<and> fsys s (dirname path) \<noteq> Some Dir)
     then (Inl (Raised OSError), s)
     else (Inr (), s\<lparr>fsys := (fsys s)(path \<mapsto> Dir)\<rparr>))"

definition ensure_dir :: "string \<Rightarrow> unit prog" where
  "ensure_dir path = (\<lambda>s. if \<not> (fsys s path = Some Dir) then mkdir path s else (Inr (), s))"

definition trial :: "env \<Rightarrow> (string \<Rightarrow> real option) \<Rightarrow> int \<Rightarrow> string \<Rightarrow> unit prog" where
  "trial E parameters access_id result_path =
     seqP (assert_isdir ''Simulations'')
    (let trial_path = trial_path_of access_id in
     seqP (ensure_dir trial_path)
    (seqP (create_case E parameters trial_path)
    (seqP (mesh_case E trial_path)
    (seqP (run_case E trial_path)
    (bindP (extract_results E trial_path) (\<lambda>error.
     persist E error result_path))))))"

section \<open>A concrete world\<close>

text \<open>
  A small world on which the definitions can be run: a template with the three settings
  documents, child processes with a given behaviour, and two short time series. The
  library functions are stand-ins that are defined on the few texts of this world only.
\<close>

definition child :: "real option \<Rightarrow> int \<Rightarrow> real option \<Rightarrow> process" where
  "child d rc k =
     \<lparr>exits_after = d, returncode = rc, dies_after_term = k,
      effect = (\<lambda>f. f), effect_stopped = (\<lambda>f. f)\<rparr>"

definition vessel_doc :: toml_table where
  "vessel_doc = [(''height0'', Float 0), (''xtranslate'', Float 0), (''ytranslate'', Float 0)]"

definition impeller_doc :: toml_table where
  "impeller_doc =
     [(''height'', Float 0), (''diameter'', Float 0),
      (''Blades'', Array [Table [(''twist'', Float 0)]]),
      (''FidgetSurface'', Array [Table []])]"

definition mesh_doc :: toml_table where
  "mesh_doc = [(''RotationVolume'', Table []), (''Mesh'', Table [(''xscale'', Float 1)])]"

definition example_toml_load :: "string \<Rightarrow> toml_table option" where
  "example_toml_load text =
     (if text = ''vessel'' then Some vessel_doc
      else if text = ''impeller'' then Some impeller_doc
      else if text = ''mesh'' then Some mesh_doc
      else None)"

definition example_toml_dump :: "toml_table \<Rightarrow> string" where
  "example_toml_dump d = (case d of [] \<Rightarrow> [] | kv # rest \<Rightarrow> ''new '' @ fst kv)"

definition example_loadtxt :: "string \<Rightarrow> ndarray option" where
  "example_loadtxt text =
     (if text = ''cov'' then Some (Array2 [[41 / 2, 1], [43 / 2, 7 / 10], [22, 9 / 10]])
      else if text = ''avg'' then Some (Array2 [[41 / 2, 9], [43 / 2, 3], [22, 17 / 5]])
      else None)"

definition example_env :: "(string list \<Rightarrow> string option \<Rightarrow> process option) \<Rightarrow> env" where
  "example_env sp =
     \<lparr>sys_executable = ''python3'', spawn = sp,
      glob = (\<lambda>f pattern. []),
      listdir = (\<lambda>f d. Some [''0'', ''10'']),
      natsorted = (\<lambda>names. names),
      loadtxt = example_loadtxt,
      toml_load = example_toml_load,
      toml_dump = example_toml_dump,
      pickle_dump = (\<lambda>v. ''pickled'')\<rparr>"

definition empty_state :: state where
  "empty_state = \<lparr>fsys = (\<lambda>p. None), trace = []\<rparr>"

text \<open>
  The state after the solver of trial 7 has run: the latest output directory of each
  metric holds a time series.
\<close>

definition results_state :: state where
  "results_state =
     \<lparr>fsys = map_of
        [(''Simulations/sim0007/phase-5-cfd/case/postProcessing/volFieldValue1.CoV/10/volFieldValue.dat'',
          File ''cov''),
         (''Simulations/sim0007/phase-5-cfd/case/postProcessing/volFieldValue1.volAverage/10/volFieldValue.dat'',
          File ''avg'')],
      trace = []\<rparr>"

text \<open>
  Two more readings of the same files: one in which the series of the first metric that
  is read (CoV) stops at time 5 while the other runs to time 25, and one in which both
  run to time 30.
\<close>

definition short_cov_loadtxt :: "string \<Rightarrow> ndarray option" where
  "short_cov_loadtxt text =
     (if text = ''cov'' then Some (Array2 [[4, 1], [5, 1]])
      else if text = ''avg'' then Some (Array2 [[24, 2], [25, 4]])
      else None)"

definition long_loadtxt :: "string \<Rightarrow> ndarray option" where
  "long_loadtxt text =
     (if text = ''cov'' then Some (Array2 [[2, 8], [3, 2]])
      else if text = ''avg'' then Some (Array2 [[29, 1], [30, 6]])
      else None)"

definition no_spawn :: "string list \<Rightarrow> string option \<Rightarrow> process option" where
  "no_spawn cmd cwd = None"

definition early_stop_loadtxt :: "string \<Rightarrow> ndarray option" where
  "early_stop_loadtxt text =
     (if text = ''cov'' then Some (Array2 [[9, 1], [10, 3]])
      else if text = ''avg'' then Some (Array2 [[9, 2], [10, 5]])
      else None)"

definition results_dir_state :: state where
  "results_dir_state = \<lparr>fsys = map_of [(''results'', Dir)], trace = []\<rparr>"

text \<open>
  The state before trial 7: the template with its three documents, the directory of the
  simulations and the directory of the results. The solver writes the two time series,
  whether it runs to its end or is stopped; every other stage leaves the files alone.
\<close>

definition trial_state :: state where
  "trial_state =
     \<lparr>fsys = map_of
        [(''Simulations'', Dir), (''results'', Dir), (''Template'', Dir),
         (''Template/phase-1-geometry-vessel'', Dir),
         (''Template/phase-1-geometry-vessel/settings.toml'', File ''vessel''),
         (''Template/phase-2-geometry-impeller'', Dir),
         (''Template/phase-2-geometry-impeller/settings.toml'', File ''impeller''),
         (''Template/phase-4-mesh'', Dir),
         (''Template/phase-4-mesh/settings.toml'', File ''mesh'')],
      trace = []\<rparr>"

definition write_series :: "fs \<Rightarrow> fs" where
  "write_series f =
     f(''Simulations/sim0007/phase-5-cfd/case/postProcessing/volFieldValue1.CoV/10/volFieldValue.dat''
         \<mapsto> File ''cov'',
       ''Simulations/sim0007/phase-5-cfd/case/postProcessing/volFieldValue1.volAverage/10/volFieldValue.dat''
         \<mapsto> File ''avg'')"

definition solver :: "real option \<Rightarrow> process" where
  "solver d =
     \<lparr>exits_after = d, returncode = 0, dies_after_term = Some 3,
      effect = write_series, effect_stopped = write_series\<rparr>"

definition trial_spawn :: "process \<Rightarrow> process \<Rightarrow> string list \<Rightarrow> string option \<Rightarrow> process option" where
  "trial_spawn cfd rm cmd cwd =
     (if cmd = [''python3'', ''script.py''] then
        (if cwd = Some ''Simulations/sim0007/phase-5-cfd'' then Some cfd
         else Some (child (Some 60) 0 (Some 1)))
      else Some rm)"

definition example_parameters :: "string \<Rightarrow> real option" where
  "example_parameters name = Some (1 / 2)"

section \<open>Outcomes of supervised commands\<close>

text \<open>
  The outcome of a command in the words of the specification. A command reaches
  \<open>Completed(0)\<close> when its process can be started and exits by itself with status 0,
  within the timeout when there is one. It times out when its process is started and
  has not exited by itself at the end of the timeout.
\<close>

definition completed_0 :: "env \<Rightarrow> string list \<Rightarrow> string option \<Rightarrow> real option \<Rightarrow> bool" where
  "completed_0 E cmd cwd timeout =
     (case spawn E cmd cwd of
        None \<Rightarrow> False
      | Some p \<Rightarrow>
          returncode p = 0 \<and>
          (case timeout of None \<Rightarrow> exits_after p \<noteq> None | Some t \<Rightarrow> exits_within p t))"

definition timed_out :: "env \<Rightarrow> string list \<Rightarrow> string option \<Rightarrow> real \<Rightarrow> bool" where
  "timed_out E cmd cwd t =
     (case spawn E cmd cwd of None \<Rightarrow> False | Some p \<Rightarrow> \<not> exits_within p t)"

text \<open>The trace shows no file opened for the saving of a result.\<close>

definition no_wb :: "event list \<Rightarrow> bool" where
  "no_wb t = (list_all (\<lambda>e. case e of Open_wb q \<Rightarrow> False | _ \<Rightarrow> True) t)"

definition wb_free :: "'a prog \<Rightarrow> bool" where
  "wb_free m = (\<forall>s. no_wb (trace s) \<longrightarrow> no_wb (trace (snd (m s))))"

section \<open>How a program uses the file system\<close>

text \<open>
  The result of the program and the file system it leaves are determined by the file
  system it starts from; the trace plays no part.
\<close>

definition fs_only :: "'a prog \<Rightarrow> bool" where
  "fs_only m =
     (\<forall>s s'. fsys s = fsys s' \<longrightarrow>
        fst (m s) = fst (m s') \<and> fsys (snd (m s)) = fsys (snd (m s')))"

text \<open>
  The file system \<open>h\<close> differs from \<open>g\<close> at paths of the given set only, and only by the
  content of regular files.
\<close>

definition file_edit :: "fs \<Rightarrow> fs \<Rightarrow> string set \<Rightarrow> bool" where
  "file_edit g h paths = (\<forall>q. h q \<noteq> g q \<longrightarrow> q \<in> paths \<and> is_file (g q) \<and> is_file (h q))"

definition edits_files :: "string set \<Rightarrow> 'a prog \<Rightarrow> bool" where
  "edits_files paths m = (\<forall>s. file_edit (fsys s) (fsys (snd (m s))) paths)"

section \<open>Basic facts about the Python primitives\<close>

lemma bindE_Inr [simp]: "bindE (Inr x) f = f x"
  by (simp add: bindE_def)

lemma bindE_Inl [simp]: "bindE (Inl h) f = Inl h"
  by (simp add: bindE_def)

lemma bindE_eq_Inr: "bindE m f = Inr y \<longleftrightarrow> (\<exists>x. m = Inr x \<and> f x = Inr y)"
  by (cases m) simp_all

lemma mapE_Inr_map:
  assumes "\<And>x. x \<in> set xs \<Longrightarrow> f x = Inr (g x)"
  shows "mapE f xs = Inr (map g xs)"
  using assms by (induction xs) simp_all

lemma getitem_0 [simp]: "getitem (x # xs) 0 = Inr x"
  by (simp add: getitem_def)

lemma getitem_1 [simp]: "getitem (x # y # xs) 1 = Inr y"
  by (simp add: getitem_def)

lemma getitem_2 [simp]: "getitem (x # y # z # xs) 2 = Inr z"
  by (simp add: getitem_def)

lemma getitem_last: "xs \<noteq> [] \<Longrightarrow> getitem xs (-1) = Inr (last xs)"
  by (cases xs rule: rev_cases) (simp_all add: getitem_def nth_append)

lemma getitem_0_nth: "1 \<le> length xs \<Longrightarrow> getitem xs 0 = Inr (xs ! 0)"
  by (cases xs) simp_all

lemma getitem_1_nth: "2 \<le> length xs \<Longrightarrow> getitem xs 1 = Inr (xs ! 1)"
  by (cases xs; cases "tl xs") simp_all

lemmas prog_defs =
  bindP_def seqP_def retP_def haltP_def raiseP_def liftE_def emit_def modify_fs_def

section \<open>Properties of the parameter binder\<close>

lemma bound_value_2: "bound_value [lo, hi] = Inr ((lo + hi) / 2)"
  by (simp add: bound_value_def)

lemma bound_value_3: "bound_value [lo, hi, v] = Inr v"
  by (simp add: bound_value_def)

lemma length_2_iff: "length t = 2 \<longleftrightarrow> (\<exists>a b. t = [a, b])"
  by (cases t; cases "tl t"; cases "tl (tl t)") auto

lemma length_3_iff: "length t = 3 \<longleftrightarrow> (\<exists>a b c. t = [a, b, c])"
  by (cases t; cases "tl t"; cases "tl (tl t)"; cases "tl (tl (tl t))") auto

text \<open>
  Claim C8. When every named parameter is given as a 2-tuple \<open>[min, max]\<close> or a 3-tuple
  \<open>[min, max, value]\<close>, the binder returns normally, keeps the names in order, and binds
  to each 2-tuple the midpoint \<open>(min + max) / 2\<close> and to each 3-tuple its explicit value.
\<close>

theorem create_parameters_binds:
  assumes "\<forall>t \<in> set (map snd kw). length t = 2 \<or> length t = 3"
  shows "\<exists>p. create_parameters kw = Inr p \<and> arg_variables p = map fst kw \<and>
           length (arg_values p) = length kw \<and>
           (\<forall>i < length kw.
              (\<forall>lo hi. snd (kw ! i) = [lo, hi] \<longrightarrow> arg_values p ! i = (lo + hi) / 2) \<and>
              (\<forall>lo hi v. snd (kw ! i) = [lo, hi, v] \<longrightarrow> arg_values p ! i = v))"
proof -
  let ?v = "\<lambda>t::real list. if length t = 3 then t ! 2 else (t ! 0 + t ! 1) / 2"
  have shape: "(\<exists>a b. t = [a, b]) \<or> (\<exists>a b c. t = [a, b, c])" if "t \<in> set (map snd kw)" for t
    using assms that length_2_iff length_3_iff by blast
  have mins: "mapE (\<lambda>t. getitem t 0) (map snd kw) = Inr (map (\<lambda>t. t ! 0) (map snd kw))"
    by (rule mapE_Inr_map) (use shape in fastforce)
  have maxs: "mapE (\<lambda>t. getitem t 1) (map snd kw) = Inr (map (\<lambda>t. t ! 1) (map snd kw))"
    by (rule mapE_Inr_map) (use shape in fastforce)
  have vals: "mapE bound_value (map snd kw) = Inr (map ?v (map snd kw))"
    by (rule mapE_Inr_map) (use shape in \<open>fastforce simp: bound_value_def\<close>)
  show ?thesis
    by (simp add: create_parameters_def mins maxs vals)
qed

theorem create_parameters_binds_witness:
  "\<exists>p. create_parameters [(''x'', [0, 2]), (''y'', [0, 4, 3])] = Inr p \<and>
       arg_variables p = [''x'', ''y''] \<and> arg_values p = [1, 3]"
proof -
  let ?kw = "[(''x'', [0, 2]), (''y'', [0, 4, 3 :: real])]"
  have h: "\<forall>t \<in> set (map snd ?kw). length t = 2 \<or> length t = 3"
    by simp
  from create_parameters_binds [OF h] obtain p where
    p: "create_parameters ?kw = Inr p"
       "arg_variables p = [''x'', ''y'']" "length (arg_values p) = 2"
       "\<forall>i < 2. (\<forall>lo hi. snd (?kw ! i) = [lo, hi] \<longrightarrow> arg_values p ! i = (lo + hi) / 2) \<and>
              (\<forall>lo hi v. snd (?kw ! i) = [lo, hi, v] \<longrightarrow> arg_values p ! i = v)"
    by auto
  have "arg_values p ! 0 = 1" "arg_values p ! 1 = 3"
    using p(4) [rule_format, of 0] p(4) [rule_format, of 1] by simp_all
  with p(3) have "arg_values p = [1, 3]"
    by (cases "arg_values p"; cases "tl (arg_values p)") auto
  with p(1,2) show ?thesis by blast
qed

section \<open>Properties of the process supervisor\<close>

text \<open>
  Claim C3, as the code has it. When the command exits by itself within the timeout, the
  supervisor has sent no signal; it returns \<open>True\<close> to the caller when the exit status is
  0, and for any other status it ends the whole trial itself with \<^verbatim>\<open>os._exit(1)\<close>, so
  that the caller never sees the status.
\<close>

theorem system_timeout_natural_exit:
  assumes "spawn E cmd cwd = Some p" and "exits_within p timeout"
  shows "system_timeout E cmd timeout cwd s =
           (if returncode p = 0 then Inr True else Inl (Os_exit 1),
            s\<lparr>fsys := effect p (fsys s),
              trace := trace s @ [Print_running_timeout (timeout / 3600) cmd, Popen cmd cwd,
                                  Wait (Some timeout)]\<rparr>)"
  using assms by (simp add: system_timeout_def popen_def prog_defs)

theorem system_timeout_natural_exit_witness:
  "system_timeout (example_env (\<lambda>cmd cwd. Some (child (Some 5) 0 (Some 1))))
       [''python3'', ''script.py''] 10 None empty_state =
     (Inr True,
      empty_state\<lparr>trace := [Print_running_timeout (10 / 3600) [''python3'', ''script.py''],
                            Popen [''python3'', ''script.py''] None, Wait (Some 10)]\<rparr>)"
proof -
  let ?E = "example_env (\<lambda>cmd cwd. Some (child (Some 5) 0 (Some 1)))"
  have 1: "spawn ?E [''python3'', ''script.py''] None = Some (child (Some 5) 0 (Some 1))"
    by (simp add: example_env_def)
  have 2: "exits_within (child (Some 5) 0 (Some 1)) 10"
    by (simp add: exits_within_def child_def)
  show ?thesis
    using system_timeout_natural_exit [OF 1 2, of empty_state]
    by (simp add: child_def empty_state_def)
qed

text \<open>
  The claim as the specification states it fails: a command that exits with status 3
  after 5 time units, well within a timeout of 10, does not give control back to the
  caller at all.
\<close>

theorem system_timeout_nonzero_exit_counterexample:
  "exits_within (child (Some 5) 3 (Some 1)) 10 \<and>
   fst (system_timeout (example_env (\<lambda>cmd cwd. Some (child (Some 5) 3 (Some 1))))
          [''python3'', ''script.py''] 10 None empty_state) = Inl (Os_exit 1)"
  by (simp add: system_timeout_def popen_def prog_defs example_env_def child_def
      exits_within_def)

text \<open>
  Claim C4. When the command has not exited at the end of the timeout, the supervisor
  sends the termination signal, waits up to 10 time units, sends the kill signal only
  when the process is still alive then, and returns \<open>False\<close> in both cases.
\<close>

theorem system_timeout_expiry:
  assumes "spawn E cmd cwd = Some p" and "\<not> exits_within p timeout"
  shows "system_timeout E cmd timeout cwd s =
           (Inr False,
            s\<lparr>fsys := effect_stopped p (fsys s),
              trace := trace s @
                [Print_running_timeout (timeout / 3600) cmd, Popen cmd cwd, Wait (Some timeout),
                 Print_exceeded, Terminate, Wait (Some 10)] @
                (if dead_within p timeout 10 then [] else [Print_not_terminated, Kill])\<rparr>)"
  using assms by (simp add: system_timeout_def popen_def prog_defs)

theorem system_timeout_expiry_witness:
  "system_timeout (example_env (\<lambda>cmd cwd. Some (child None 0 None)))
       [''python3'', ''script.py''] 10 None empty_state =
     (Inr False,
      empty_state\<lparr>trace := [Print_running_timeout (10 / 3600) [''python3'', ''script.py''],
                            Popen [''python3'', ''script.py''] None, Wait (Some 10),
                            Print_exceeded, Terminate, Wait (Some 10),
                            Print_not_terminated, Kill]\<rparr>) \<and>
   fst (system_timeout (example_env (\<lambda>cmd cwd. Some (child None 0 (Some 2))))
       [''python3'', ''script.py''] 10 None empty_state) = Inr False \<and>
   Kill \<notin> set (trace (snd (system_timeout (example_env (\<lambda>cmd cwd. Some (child None 0 (Some 2))))
       [''python3'', ''script.py''] 10 None empty_state)))"
proof -
  let ?E = "example_env (\<lambda>cmd cwd. Some (child None 0 None))"
  let ?F = "example_env (\<lambda>cmd cwd. Some (child None 0 (Some 2)))"
  have 1: "spawn ?E [''python3'', ''script.py''] None = Some (child None 0 None)"
    and 2: "spawn ?F [''python3'', ''script.py''] None = Some (child None 0 (Some 2))"
    by (simp_all add: example_env_def)
  have 3: "\<not> exits_within (child None 0 None) 10"
    and 4: "\<not> exits_within (child None 0 (Some 2)) 10"
    by (simp_all add: exits_within_def child_def)
  show ?thesis
    using system_timeout_expiry [OF 1 3, of empty_state]
      system_timeout_expiry [OF 2 4, of empty_state]
    by (simp add: child_def empty_state_def dead_within_def exits_within_def)
qed

section \<open>Properties of the result extraction\<close>

subsection \<open>The windowed mean\<close>

lemma column_0:
  assumes "\<forall>r \<in> set rows. 2 \<le> length r"
  shows "column (Array2 rows) 0 = Inr (map (\<lambda>r. r ! 0) rows)"
proof -
  have "mapE (\<lambda>r. getitem r 0) rows = Inr (map (\<lambda>r. r ! 0) rows)"
  proof (rule mapE_Inr_map)
    fix r assume "r \<in> set rows"
    then have "1 \<le> length r" using assms by force
    then show "getitem r 0 = Inr (r ! 0)" by (rule getitem_0_nth)
  qed
  then show ?thesis by (simp add: column_def)
qed

lemma column_1:
  assumes "\<forall>r \<in> set rows. 2 \<le> length r"
  shows "column (Array2 rows) 1 = Inr (map (\<lambda>r. r ! 1) rows)"
proof -
  have "mapE (\<lambda>r. getitem r 1) rows = Inr (map (\<lambda>r. r ! 1) rows)"
  proof (rule mapE_Inr_map)
    fix r assume "r \<in> set rows"
    then have "2 \<le> length r" using assms by blast
    then show "getitem r 1 = Inr (r ! 1)" by (rule getitem_1_nth)
  qed
  then show ?thesis by (simp add: column_def)
qed

lemma element_last:
  assumes "rows \<noteq> []" and "\<forall>r \<in> set rows. 2 \<le> length r"
  shows "element (Array2 rows) (-1) 0 = Inr (last rows ! 0)"
proof -
  have "last rows \<in> set rows" using assms(1) by simp
  then have "1 \<le> length (last rows)" using assms(2) by force
  then have "getitem (last rows) 0 = Inr (last rows ! 0)" by (rule getitem_0_nth)
  then show ?thesis
    by (simp add: element_def getitem_last [OF assms(1)])
qed

lemma select_map: "select (map P xs) (map g xs) = map g (filter P xs)"
  by (induction xs) (simp_all add: select_def)

lemma windowed_mean_rows:
  assumes "rows \<noteq> []" and "\<forall>r \<in> set rows. 2 \<le> length r"
  shows "windowed_mean (Array2 rows) =
           Inr (mean (map (\<lambda>r. r ! 1) (filter (\<lambda>r. last rows ! 0 - 1 < r ! 0) rows)))"
proof -
  have "windowed_mean (Array2 rows) =
          Inr (mean (select (map (\<lambda>t. last rows ! 0 - 1 < t) (map (\<lambda>r. r ! 0) rows))
                            (map (\<lambda>r. r ! 1) rows)))"
    unfolding windowed_mean_def column_0 [OF assms(2)] column_1 [OF assms(2)]
      element_last [OF assms] bindE_Inr Let_def ..
  also have "map (\<lambda>t. last rows ! 0 - 1 < t) (map (\<lambda>r. r ! 0) rows) =
               map (\<lambda>r. last rows ! 0 - 1 < r ! 0) rows"
    by (simp only: map_map o_def)
  also have "select (map (\<lambda>r. last rows ! 0 - 1 < r ! 0) rows) (map (\<lambda>r. r ! 1) rows) =
               map (\<lambda>r. r ! 1) (filter (\<lambda>r. last rows ! 0 - 1 < r ! 0) rows)"
    by (rule select_map)
  finally show ?thesis .
qed

lemma filter_upt_last: "filter (\<lambda>i. real n - 1 < real i) [0..<Suc n] = [n]"
proof -
  have "filter (\<lambda>i. real n - 1 < real i) [0..<n] = []"
    by (auto simp: filter_empty_conv)
  then show ?thesis by simp
qed

lemma windowed_mean_upt:
  "windowed_mean (Array2 (map (\<lambda>i. [real i, v i]) [0..<Suc n])) = Inr (v n)"
proof -
  let ?rows = "map (\<lambda>i. [real i, v i]) [0..<Suc n]"
  have rows: "?rows = map (\<lambda>i. [real i, v i]) [0..<n] @ [[real n, v n]]"
    by simp
  have ne: "?rows \<noteq> []" by simp
  have len: "\<forall>r \<in> set ?rows. 2 \<le> length r" by auto
  have l: "last ?rows = [real n, v n]"
    unfolding rows by (rule last_snoc)
  have "filter (\<lambda>r. real n - 1 < r ! 0) ?rows =
          map (\<lambda>i. [real i, v i]) (filter (\<lambda>i. real n - 1 < real i) [0..<Suc n])"
    by (simp only: filter_map o_def nth_Cons_0)
  then have f: "filter (\<lambda>r. last ?rows ! 0 - 1 < r ! 0) ?rows = [[real n, v n]]"
    unfolding l nth_Cons_0 filter_upt_last by simp
  show ?thesis
    unfolding windowed_mean_rows [OF ne len] f by (simp add: mean_def)
qed

lemma upt_26: "[0..<26] = [0..<Suc 25]"
proof -
  have "(26::nat) = Suc 25" by simp
  then show ?thesis by (rule arg_cong)
qed

subsection \<open>The extraction as a whole\<close>

lemma load_latest_state: "snd (load_latest E tp m s) = s"
  by (simp add: load_latest_def prog_defs read_file_def Let_def
      split: option.splits node.splits sum.splits prod.splits)

lemma load_latest_eq: "fst (load_latest E tp m s) = r \<Longrightarrow> load_latest E tp m s = (r, s)"
  using load_latest_state [of E tp m s] by (cases "load_latest E tp m s") simp

lemma extract_results_eq:
  assumes "fst (load_latest E tp ''volFieldValue1.CoV'' s) = Inr cov_data"
      and "windowed_mean cov_data = Inr epsilon_cov"
      and "fst (load_latest E tp ''volFieldValue1.volAverage'' s) = Inr avg_data"
      and "windowed_mean avg_data = Inr epsilon_avg"
      and "element avg_data (-1) 0 = Inr final_time"
  shows "extract_results E tp s =
           (if final_time < 20
            then Inl (Raised (RuntimeError ''Simulation did not run for 20 seconds''))
            else Inr (error_vector epsilon_avg epsilon_cov),
            s\<lparr>trace := trace s @ [Print_epsilon_average epsilon_avg,
                                  Print_epsilon_cov epsilon_cov]\<rparr>)"
  using load_latest_eq [OF assms(1)] load_latest_eq [OF assms(3)] assms(2,4,5)
  by (simp add: extract_results_def prog_defs)

lemma extract_results_cov_fails:
  assumes "fst (load_latest E tp ''volFieldValue1.CoV'' s) = Inr cov_data"
      and "windowed_mean cov_data = Inl h"
  shows "extract_results E tp s = (Inl h, s)"
  using load_latest_eq [OF assms(1)] assms(2)
  by (simp add: extract_results_def prog_defs)

lemma extract_results_avg_fails:
  assumes "fst (load_latest E tp ''volFieldValue1.CoV'' s) = Inr cov_data"
      and "windowed_mean cov_data = Inr epsilon_cov"
      and "fst (load_latest E tp ''volFieldValue1.volAverage'' s) = Inr avg_data"
      and "windowed_mean avg_data = Inl h"
  shows "extract_results E tp s = (Inl h, s)"
  using load_latest_eq [OF assms(1)] load_latest_eq [OF assms(3)] assms(2,4)
  by (simp add: extract_results_def prog_defs)

lemma extract_results_Inr:
  assumes "fst (extract_results E tp s) = Inr err"
  shows "\<exists>a c. err = error_vector a c"
  using assms
  by (auto simp: extract_results_def prog_defs split: sum.splits prod.splits if_splits)

lemma error_vector_bounds:
  "length (error_vector a c) = 2 \<and> 0 < error_vector a c ! 1 \<and> error_vector a c ! 1 \<le> 2"
proof -
  have "1 / 2 \<le> max c (1 / 2)" by simp
  then have "0 < max c (1 / 2)" "1 / max c (1 / 2) \<le> 2"
    by (auto simp: field_simps)
  then show ?thesis by (simp add: error_vector_def Let_def)
qed

subsection \<open>The concrete world\<close>

lemmas example_defs =
  load_latest_def metric_dir_def example_env_def results_state_def read_file_def
  getitem_def prog_defs

lemmas series_defs =
  windowed_mean_def column_def element_def getitem_def select_def mean_def bindE_def


lemma example_extract:
  "extract_results (example_env no_spawn) ''Simulations/sim0007'' results_state =
     (Inr [- (16 / 5), 5 / 4],
      results_state\<lparr>trace := [Print_epsilon_average (16 / 5), Print_epsilon_cov (4 / 5)]\<rparr>)"
proof -
  let ?E = "example_env no_spawn"
  have 1: "fst (load_latest ?E ''Simulations/sim0007'' ''volFieldValue1.CoV'' results_state) =
             Inr (Array2 [[41 / 2, 1], [43 / 2, 7 / 10], [22, 9 / 10]])"
    by (simp add: example_defs example_loadtxt_def)
  have 2: "windowed_mean (Array2 [[41 / 2, 1], [43 / 2, 7 / 10], [22, 9 / 10]]) = Inr (4 / 5)"
    by (simp add: series_defs)
  have 3: "fst (load_latest ?E ''Simulations/sim0007'' ''volFieldValue1.volAverage'' results_state) =
             Inr (Array2 [[41 / 2, 9], [43 / 2, 3], [22, 17 / 5]])"
    by (simp add: example_defs example_loadtxt_def)
  have 4: "windowed_mean (Array2 [[41 / 2, 9], [43 / 2, 3], [22, 17 / 5]]) = Inr (16 / 5)"
    by (simp add: series_defs)
  have 5: "element (Array2 [[41 / 2, 9], [43 / 2, 3], [22, 17 / 5]]) (-1) 0 = Inr 22"
    by (simp add: series_defs)
  show ?thesis
    unfolding extract_results_eq [OF 1 2 3 4 5]
    by (simp add: error_vector_def results_state_def)
qed






text \<open>
  Claim C10. Once both series are loaded, the extraction first computes both windowed
  means: a failure of either is the failure of the extraction, whatever the timestamps
  are. Only then are both means printed and the last timestamp of the volAverage series
  compared with 20. The outcome does not depend on the last timestamp of the CoV series.
\<close>

theorem runtime_check_after_means_on_volAverage:
  assumes "fst (load_latest E trial_path ''volFieldValue1.CoV'' s) = Inr cov_data"
      and "fst (load_latest E trial_path ''volFieldValue1.volAverage'' s) = Inr avg_data"
  shows "(windowed_mean cov_data = Inr epsilon_cov \<and> windowed_mean avg_data = Inr epsilon_avg \<and>
          element avg_data (-1) 0 = Inr final_time \<longrightarrow>
            extract_results E trial_path s =
              (if final_time < 20
               then Inl (Raised (RuntimeError ''Simulation did not run for 20 seconds''))
               else Inr (error_vector epsilon_avg epsilon_cov),
               s\<lparr>trace := trace s @ [Print_epsilon_average epsilon_avg,
                                     Print_epsilon_cov epsilon_cov]\<rparr>)) \<and>
         (windowed_mean cov_data = Inl h \<longrightarrow> extract_results E trial_path s = (Inl h, s)) \<and>
         (windowed_mean cov_data = Inr epsilon_cov \<and> windowed_mean avg_data = Inl h \<longrightarrow>
            extract_results E trial_path s = (Inl h, s))"
  using extract_results_eq [OF assms(1) _ assms(2)] extract_results_cov_fails [OF assms(1)]
    extract_results_avg_fails [OF assms(1) _ assms(2)]
  by blast

theorem runtime_check_after_means_on_volAverage_witness:
  "element (Array2 [[4, 1], [5, 1]]) (-1) 0 = Inr 5 \<and>
   extract_results ((example_env no_spawn)\<lparr>loadtxt := short_cov_loadtxt\<rparr>)
       ''Simulations/sim0007'' results_state =
     (Inr [- 4, 1],
      results_state\<lparr>trace := [Print_epsilon_average 4, Print_epsilon_cov 1]\<rparr>)"
proof -
  let ?E = "(example_env no_spawn)\<lparr>loadtxt := short_cov_loadtxt\<rparr>"
  have 1: "fst (load_latest ?E ''Simulations/sim0007'' ''volFieldValue1.CoV'' results_state) =
             Inr (Array2 [[4, 1], [5, 1]])"
    by (simp add: example_defs short_cov_loadtxt_def)
  have 2: "windowed_mean (Array2 [[4, 1], [5, 1]]) = Inr 1"
    by (simp add: series_defs)
  have 3: "fst (load_latest ?E ''Simulations/sim0007'' ''volFieldValue1.volAverage'' results_state) =
             Inr (Array2 [[24, 2], [25, 4]])"
    by (simp add: example_defs short_cov_loadtxt_def)
  have 4: "windowed_mean (Array2 [[24, 2], [25, 4]]) = Inr 4"
    by (simp add: series_defs)
  have 5: "element (Array2 [[24, 2], [25, 4]]) (-1) 0 = Inr 25"
    by (simp add: series_defs)
  have 6: "element (Array2 [[4, 1], [5, 1]]) (-1) 0 = Inr 5"
    by (simp add: series_defs)
  from runtime_check_after_means_on_volAverage [OF 1 3, of 1 4 25] 2 4 5
  have "extract_results ?E ''Simulations/sim0007'' results_state =
          (if (25 :: real) < 20
           then Inl (Raised (RuntimeError ''Simulation did not run for 20 seconds''))
           else Inr (error_vector 4 1),
           results_state\<lparr>trace := trace results_state @
             [Print_epsilon_average 4, Print_epsilon_cov 1]\<rparr>)"
    by blast
  with 6 show ?thesis
    by (simp add: error_vector_def results_state_def)
qed

section \<open>Properties of the saving of the error vector\<close>

lemma create_empty_cases:
  "create_empty path s = (Inl (Raised OSError), s) \<or>
   create_empty path s = (Inr (), s\<lparr>fsys := (fsys s)(path \<mapsto> File [])\<rparr>)"
  by (simp add: create_empty_def)

lemma open_wb_cases:
  "open_wb path s = (Inl (Raised OSError), s\<lparr>trace := trace s @ [Open_wb path]\<rparr>) \<or>
   open_wb path s =
     (Inr (), s\<lparr>trace := trace s @ [Open_wb path], fsys := (fsys s)(path \<mapsto> File [])\<rparr>)"
  using create_empty_cases [of path "s\<lparr>trace := trace s @ [Open_wb path]\<rparr>"]
  by (auto simp: open_wb_def prog_defs)

text \<open>
  Claim C7, as the code has it. The vector is written in place: the result path is
  opened, which leaves an empty file there, and the pickled vector is in the file only
  after the write. When saving has returned normally, the file systems that could be seen
  on the way are these two, the last one holding the complete pickled vector, and no
  other path has changed; when the path cannot be opened, the file system is unchanged.
\<close>

theorem persist_in_place:
  "(fst (persist E error result_path s) = Inr () \<longrightarrow>
      persist_states E error result_path s =
        [(fsys s)(result_path \<mapsto> File []),
         (fsys s)(result_path \<mapsto> File (pickle_dump E error))] \<and>
      fsys (snd (persist E error result_path s)) =
        (fsys s)(result_path \<mapsto> File (pickle_dump E error))) \<and>
   (fst (persist E error result_path s) \<noteq> Inr () \<longrightarrow>
      persist_states E error result_path s = [fsys s] \<and>
      fsys (snd (persist E error result_path s)) = fsys s)"
  using open_wb_cases [of result_path s]
  by (auto simp: persist_def persist_states_def write_close_def prog_defs)

theorem persist_in_place_witness:
  "fst (persist (example_env no_spawn) [- (16 / 5), 5 / 4] ''results/result_7.pickle''
          results_dir_state) = Inr () \<and>
   fsys (snd (persist (example_env no_spawn) [- (16 / 5), 5 / 4] ''results/result_7.pickle''
          results_dir_state)) ''results/result_7.pickle'' = Some (File ''pickled'') \<and>
   fst (persist (example_env no_spawn) [- (16 / 5), 5 / 4] ''missing/result_7.pickle''
          results_dir_state) = Inl (Raised OSError) \<and>
   fsys (snd (persist (example_env no_spawn) [- (16 / 5), 5 / 4] ''missing/result_7.pickle''
          results_dir_state)) = fsys results_dir_state"
proof -
  let ?E = "example_env no_spawn"
  have 1: "fst (persist ?E [- (16 / 5), 5 / 4] ''results/result_7.pickle'' results_dir_state) =
             Inr ()"
    by (simp add: persist_def open_wb_def create_empty_def write_close_def prog_defs
        dirname_def results_dir_state_def)
  have 2: "fst (persist ?E [- (16 / 5), 5 / 4] ''missing/result_7.pickle'' results_dir_state) =
             Inl (Raised OSError)"
    by (simp add: persist_def open_wb_def create_empty_def write_close_def prog_defs
        dirname_def results_dir_state_def)
  have 3: "pickle_dump ?E [- (16 / 5), 5 / 4] = ''pickled''"
    by (simp add: example_env_def)
  from persist_in_place [of ?E "[- (16 / 5), 5 / 4]" "''results/result_7.pickle''"
      results_dir_state] 1
  have a: "fsys (snd (persist ?E [- (16 / 5), 5 / 4] ''results/result_7.pickle''
              results_dir_state)) =
            (fsys results_dir_state)(''results/result_7.pickle'' \<mapsto>
               File (pickle_dump ?E [- (16 / 5), 5 / 4]))"
    by blast
  from persist_in_place [of ?E "[- (16 / 5), 5 / 4]" "''missing/result_7.pickle''"
      results_dir_state] 2
  have b: "fsys (snd (persist ?E [- (16 / 5), 5 / 4] ''missing/result_7.pickle''
              results_dir_state)) = fsys results_dir_state"
    by simp
  show ?thesis
    using 1 2 b by (simp add: a 3)
qed

text \<open>
  The claim as the specification states it fails: in the first file system that can be
  seen while the vector is saved, the result path exists and the file is empty, which is
  not the pickled vector.
\<close>

theorem persist_partial_file_counterexample:
  "(persist_states (example_env no_spawn) [- (16 / 5), 5 / 4] ''results/result_7.pickle''
      results_dir_state ! 0) ''results/result_7.pickle'' = Some (File []) \<and>
   pickle_dump (example_env no_spawn) [- (16 / 5), 5 / 4] = ''pickled''"
  by (simp add: persist_states_def open_wb_def create_empty_def prog_defs dirname_def
      results_dir_state_def example_env_def)

section \<open>What the stages leave in the trace\<close>

lemma no_wb_append [simp]: "no_wb (t @ u) \<longleftrightarrow> no_wb t \<and> no_wb u"
  by (simp add: no_wb_def)

lemma no_wb_Nil [simp]: "no_wb []"
  by (simp add: no_wb_def)

lemma no_wb_Cons [simp]:
  "no_wb (e # t) \<longleftrightarrow> (case e of Open_wb q \<Rightarrow> False | _ \<Rightarrow> True) \<and> no_wb t"
  by (simp add: no_wb_def)

lemma no_wb_mem: "no_wb t \<Longrightarrow> Open_wb q \<notin> set t"
  by (auto simp: no_wb_def list_all_iff)

lemma wb_freeI: "(\<And>s. no_wb (trace s) \<Longrightarrow> no_wb (trace (snd (m s)))) \<Longrightarrow> wb_free m"
  by (simp add: wb_free_def)

lemma wb_freeD: "wb_free m \<Longrightarrow> no_wb (trace s) \<Longrightarrow> no_wb (trace (snd (m s)))"
  by (simp add: wb_free_def)

lemma wb_free_retP [intro!, simp]: "wb_free (retP x)"
  by (simp add: wb_free_def retP_def)

lemma wb_free_haltP [intro!, simp]: "wb_free (haltP h)"
  by (simp add: wb_free_def haltP_def)

lemma wb_free_raiseP [intro!, simp]: "wb_free (raiseP e)"
  by (simp add: raiseP_def)

lemma wb_free_liftE [intro!, simp]: "wb_free (liftE r)"
  by (simp add: wb_free_def liftE_def)

lemma wb_free_modify_fs [intro!, simp]: "wb_free (modify_fs f)"
  by (simp add: wb_free_def modify_fs_def)

lemma wb_free_emit: "(case e of Open_wb q \<Rightarrow> False | _ \<Rightarrow> True) \<Longrightarrow> wb_free (emit e)"
  by (simp add: wb_free_def emit_def)

lemma wb_free_bindP [intro!]:
  assumes "wb_free m" and "\<And>x. wb_free (f x)"
  shows "wb_free (bindP m f)"
proof (rule wb_freeI)
  fix s :: state assume s: "no_wb (trace s)"
  obtain r s' where m: "m s = (r, s')" by (cases "m s")
  with wb_freeD [OF assms(1) s] have s': "no_wb (trace s')" by simp
  show "no_wb (trace (snd (bindP m f s)))"
  proof (cases r)
    case (Inl h)
    with m s' show ?thesis by (simp add: bindP_def)
  next
    case (Inr x)
    with m wb_freeD [OF assms(2) s', of x] show ?thesis by (simp add: bindP_def)
  qed
qed

lemma wb_free_seqP [intro!]: "wb_free m \<Longrightarrow> wb_free n \<Longrightarrow> wb_free (seqP m n)"
  unfolding seqP_def by (rule wb_free_bindP)

lemma wb_free_state_dep: "(\<And>x. wb_free (g x)) \<Longrightarrow> wb_free (\<lambda>s. g (h s) s)"
  by (simp add: wb_free_def)

lemma wb_free_read_file [intro!, simp]: "wb_free (read_file path)"
  by (simp add: wb_free_def read_file_def split: option.splits node.splits)

lemma wb_free_create_empty [intro!, simp]: "wb_free (create_empty path)"
  by (simp add: wb_free_def create_empty_def)

lemma wb_free_open_w [intro!, simp]: "wb_free (open_w path)"
  unfolding open_w_def by (intro wb_free_seqP wb_free_emit wb_free_create_empty) simp

lemma wb_free_write_close [intro!, simp]: "wb_free (write_close path c)"
  by (simp add: write_close_def)

lemma wb_free_copytree [intro!, simp]: "wb_free (copytree src dst)"
  by (simp add: wb_free_def copytree_def)

lemma wb_free_edit_settings [intro!, simp]: "wb_free (edit_settings E path change)"
  unfolding edit_settings_def by (auto split: option.splits)

lemma wb_free_create_case [intro!, simp]: "wb_free (create_case E P tp)"
  unfolding create_case_def by auto

lemma wb_free_popen [intro!, simp]: "wb_free (popen E cmd cwd)"
  unfolding popen_def by (auto split: option.splits intro!: wb_free_emit)

lemma wb_free_system [intro!, simp]: "wb_free (system E cmd cwd)"
  unfolding system_def subprocess_run_check_def
  by (auto split: option.splits intro!: wb_free_emit)

lemma wb_free_system_timeout [intro!, simp]: "wb_free (system_timeout E cmd t cwd)"
  unfolding system_timeout_def
  by (auto split: option.splits intro!: wb_free_emit)

lemma wb_free_mesh_case [intro!, simp]: "wb_free (mesh_case E tp)"
  unfolding mesh_case_def Let_def
  by (intro wb_free_seqP wb_free_bindP wb_free_system wb_free_system_timeout
      wb_free_state_dep [where g = "\<lambda>f. system E (mesh_cleanup_cmd E tp f) None"]) auto

lemma wb_free_run_case [intro!, simp]: "wb_free (run_case E tp)"
  unfolding run_case_def Let_def by auto

lemma wb_free_load_latest [intro!, simp]: "wb_free (load_latest E tp m)"
  using load_latest_state [of E tp m] by (simp add: wb_free_def)

lemma wb_free_extract_results [intro!, simp]: "wb_free (extract_results E tp)"
  unfolding extract_results_def
  by (auto intro!: wb_free_emit)

lemma wb_free_assert_isdir [intro!, simp]: "wb_free (assert_isdir p)"
  by (simp add: wb_free_def assert_isdir_def)

lemma wb_free_ensure_dir [intro!, simp]: "wb_free (ensure_dir p)"
  by (simp add: wb_free_def ensure_dir_def mkdir_def)

section \<open>What a normal return of the pipeline requires\<close>

lemma bindP_Inr:
  assumes "fst (bindP m f s) = Inr y"
  shows "\<exists>x s'. m s = (Inr x, s') \<and> fst (f x s') = Inr y"
  using assms by (cases "m s"; cases "fst (m s)") (auto simp: bindP_def)

lemma seqP_Inr:
  assumes "fst (seqP m n s) = Inr y"
  shows "\<exists>x s'. m s = (Inr x, s') \<and> fst (n s') = Inr y"
  using bindP_Inr [of m "\<lambda>_. n" s y] assms by (simp add: seqP_def)

lemma bindP_reaches:
  assumes "wb_free m" and "no_wb (trace s)" and "\<not> no_wb (trace (snd (bindP m f s)))"
  shows "\<exists>x s'. m s = (Inr x, s') \<and> no_wb (trace s') \<and> \<not> no_wb (trace (snd (f x s')))"
proof -
  obtain r s' where m: "m s = (r, s')" by (cases "m s")
  with wb_freeD [OF assms(1,2)] have s': "no_wb (trace s')" by simp
  show ?thesis
  proof (cases r)
    case (Inl h)
    with m s' assms(3) show ?thesis by (simp add: bindP_def)
  next
    case (Inr x)
    with m s' assms(3) show ?thesis by (simp add: bindP_def)
  qed
qed

lemma seqP_reaches:
  assumes "wb_free m" and "no_wb (trace s)" and "\<not> no_wb (trace (snd (seqP m n s)))"
  shows "\<exists>x s'. m s = (Inr x, s') \<and> no_wb (trace s') \<and> \<not> no_wb (trace (snd (n s')))"
  using bindP_reaches [OF assms(1,2), of "\<lambda>_. n"] assms(3) by (simp add: seqP_def)

lemma system_Inr:
  assumes "fst (system E cmd cwd s) = Inr u"
  shows "completed_0 E cmd cwd None"
  using assms
  by (auto simp: system_def subprocess_run_check_def popen_def prog_defs completed_0_def
      split: option.splits if_splits)

lemma system_timeout_Inr:
  assumes "fst (system_timeout E cmd t cwd s) = Inr b"
  shows "if b then completed_0 E cmd cwd (Some t) else timed_out E cmd cwd t"
  using assms
  by (auto simp: system_timeout_def popen_def prog_defs completed_0_def timed_out_def
      split: option.splits if_splits)

lemma mesh_case_Inr:
  assumes "fst (mesh_case E tp s) = Inr u"
  shows "completed_0 E (stage_cmd E) (Some (tp @ ''/phase-1-geometry-vessel'')) None \<and>
         completed_0 E (stage_cmd E) (Some (tp @ ''/phase-2-geometry-impeller'')) None \<and>
         completed_0 E (stage_cmd E) (Some (tp @ ''/phase-4-mesh'')) (Some (50 * 60)) \<and>
         (\<exists>f. completed_0 E (mesh_cleanup_cmd E tp f) None None)"
proof -
  from assms obtain s1 x1 where 1: "system E (stage_cmd E) (Some (tp @ ''/phase-1-geometry-vessel'')) s = (Inr x1, s1)"
    and r1: "fst ((seqP (system E (stage_cmd E) (Some (tp @ ''/phase-2-geometry-impeller'')))
      (bindP (system_timeout E (stage_cmd E) (50 * 60) (Some (tp @ ''/phase-4-mesh''))) (\<lambda>finished.
       seqP (if \<not> finished then raiseP (RuntimeError ''Meshing timed out'') else retP ())
          (\<lambda>s. system E (mesh_cleanup_cmd E tp (fsys s)) None s)))) s1) = Inr u"
    unfolding mesh_case_def Let_def by (blast dest: seqP_Inr)
  from seqP_Inr [OF r1] obtain s2 x2 where 2: "system E (stage_cmd E) (Some (tp @ ''/phase-2-geometry-impeller'')) s1 = (Inr x2, s2)"
    and r2: "fst (bindP (system_timeout E (stage_cmd E) (50 * 60) (Some (tp @ ''/phase-4-mesh''))) (\<lambda>finished.
       seqP (if \<not> finished then raiseP (RuntimeError ''Meshing timed out'') else retP ())
          (\<lambda>s. system E (mesh_cleanup_cmd E tp (fsys s)) None s)) s2) = Inr u"
    by blast
  from bindP_Inr [OF r2] obtain s3 finished where 3: "system_timeout E (stage_cmd E) (50 * 60) (Some (tp @ ''/phase-4-mesh'')) s2 = (Inr finished, s3)"
    and r3: "fst (seqP (if \<not> finished then raiseP (RuntimeError ''Meshing timed out'') else retP ())
          (\<lambda>s. system E (mesh_cleanup_cmd E tp (fsys s)) None s) s3) = Inr u"
    by blast
  from seqP_Inr [OF r3] obtain s4 x4 where 4: "(if \<not> finished then raiseP (RuntimeError ''Meshing timed out'') else retP ()) s3 = (Inr x4, s4)"
    and r4: "fst (system E (mesh_cleanup_cmd E tp (fsys s4)) None s4) = Inr u"
    by blast
  from 4 have fin: finished by (auto simp: prog_defs split: if_splits)
  from 1 have "completed_0 E (stage_cmd E) (Some (tp @ ''/phase-1-geometry-vessel'')) None"
    using system_Inr [of E _ _ s x1] by simp
  moreover from 2 have "completed_0 E (stage_cmd E) (Some (tp @ ''/phase-2-geometry-impeller'')) None"
    using system_Inr [of E _ _ s1 x2] by simp
  moreover from 3 fin have "completed_0 E (stage_cmd E) (Some (tp @ ''/phase-4-mesh'')) (Some (50 * 60))"
    using system_timeout_Inr [of E _ _ _ s2 finished] by simp
  moreover from r4 have "\<exists>f. completed_0 E (mesh_cleanup_cmd E tp f) None None"
    using system_Inr by blast
  ultimately show ?thesis by blast
qed

lemma run_case_Inr:
  assumes "fst (run_case E tp s) = Inr u"
  shows "(completed_0 E (stage_cmd E) (Some (tp @ ''/phase-5-cfd'')) (Some (11 * 60 * 60)) \<or>
          timed_out E (stage_cmd E) (Some (tp @ ''/phase-5-cfd'')) (11 * 60 * 60)) \<and>
         completed_0 E [''rm'', ''-rf'', ''constant/polyMesh''] (Some (tp @ ''/phase-4-mesh/case'')) None \<and>
         completed_0 E [''rm'', ''-rf'', ''constant/polyMesh''] (Some (tp @ ''/phase-5-cfd/case'')) None"
proof -
  from assms obtain s1 b where 1: "system_timeout E (stage_cmd E) (11 * 60 * 60) (Some (tp @ ''/phase-5-cfd'')) s = (Inr b, s1)"
    and r1: "fst (seqP (system E [''rm'', ''-rf'', ''constant/polyMesh''] (Some (tp @ ''/phase-4-mesh/case'')))
           (system E [''rm'', ''-rf'', ''constant/polyMesh''] (Some (tp @ ''/phase-5-cfd/case''))) s1) = Inr u"
    unfolding run_case_def Let_def by (blast dest: seqP_Inr)
  from seqP_Inr [OF r1] obtain s2 x2 where 2: "system E [''rm'', ''-rf'', ''constant/polyMesh''] (Some (tp @ ''/phase-4-mesh/case'')) s1 = (Inr x2, s2)"
    and r2: "fst (system E [''rm'', ''-rf'', ''constant/polyMesh''] (Some (tp @ ''/phase-5-cfd/case'')) s2) = Inr u"
    by blast
  from 1 have "completed_0 E (stage_cmd E) (Some (tp @ ''/phase-5-cfd'')) (Some (11 * 60 * 60)) \<or>
          timed_out E (stage_cmd E) (Some (tp @ ''/phase-5-cfd'')) (11 * 60 * 60)"
    using system_timeout_Inr [of E _ _ _ s b] by (cases b) simp_all
  moreover from 2 have "completed_0 E [''rm'', ''-rf'', ''constant/polyMesh''] (Some (tp @ ''/phase-4-mesh/case'')) None"
    using system_Inr [of E _ _ s1 x2] by simp
  moreover from r2 have "completed_0 E [''rm'', ''-rf'', ''constant/polyMesh''] (Some (tp @ ''/phase-5-cfd/case'')) None"
    using system_Inr by blast
  ultimately show ?thesis by blast
qed

lemma trial_output_requires:
  assumes "no_wb (trace s)"
      and "\<not> no_wb (trace (snd (trial E P access_id result_path s)))"
  shows "\<exists>s3 s4. fst (mesh_case E (trial_path_of access_id) s3) = Inr () \<and>
                 fst (run_case E (trial_path_of access_id) s4) = Inr ()"
proof -
  let ?tp = "trial_path_of access_id"
  let ?r5 = "bindP (extract_results E ?tp) (\<lambda>error. persist E error result_path)"
  let ?r4 = "seqP (run_case E ?tp) ?r5"
  let ?r3 = "seqP (mesh_case E ?tp) ?r4"
  let ?r2 = "seqP (create_case E P ?tp) ?r3"
  let ?r1 = "seqP (ensure_dir ?tp) ?r2"
  have t: "trial E P access_id result_path = seqP (assert_isdir ''Simulations'') ?r1"
    by (simp add: trial_def Let_def)
  from seqP_reaches [OF wb_free_assert_isdir assms(1) assms(2) [unfolded t]]
  obtain s0 where 0: "no_wb (trace s0)" "\<not> no_wb (trace (snd (?r1 s0)))" by blast
  from seqP_reaches [OF wb_free_ensure_dir 0]
  obtain s1 where 1: "no_wb (trace s1)" "\<not> no_wb (trace (snd (?r2 s1)))" by blast
  from seqP_reaches [OF wb_free_create_case 1]
  obtain s2 where 2: "no_wb (trace s2)" "\<not> no_wb (trace (snd (?r3 s2)))" by blast
  from seqP_reaches [OF wb_free_mesh_case 2]
  obtain s3 u3 where 3: "mesh_case E ?tp s2 = (Inr u3, s3)" "no_wb (trace s3)"
    "\<not> no_wb (trace (snd (?r4 s3)))" by blast
  from seqP_reaches [OF wb_free_run_case 3(2,3)]
  obtain s4 u4 where 4: "run_case E ?tp s3 = (Inr u4, s4)" by blast
  from 3(1) 4 show ?thesis
    by (metis fst_conv old.unit.exhaust)
qed

section \<open>Properties of a whole trial\<close>

lemma trial_Inr_requires:
  assumes "fst (trial E P access_id result_path s) = Inr u"
  shows "\<exists>s3 s4. fst (mesh_case E (trial_path_of access_id) s3) = Inr () \<and>
                 fst (run_case E (trial_path_of access_id) s4) = Inr ()"
proof -
  let ?tp = "trial_path_of access_id"
  let ?r5 = "bindP (extract_results E ?tp) (\<lambda>error. persist E error result_path)"
  let ?r4 = "seqP (run_case E ?tp) ?r5"
  let ?r3 = "seqP (mesh_case E ?tp) ?r4"
  let ?r2 = "seqP (create_case E P ?tp) ?r3"
  let ?r1 = "seqP (ensure_dir ?tp) ?r2"
  have t: "trial E P access_id result_path = seqP (assert_isdir ''Simulations'') ?r1"
    by (simp add: trial_def Let_def)
  from seqP_Inr [OF assms [unfolded t]] obtain s0 where 0: "fst (?r1 s0) = Inr u" by blast
  from seqP_Inr [OF 0] obtain s1 where 1: "fst (?r2 s1) = Inr u" by blast
  from seqP_Inr [OF 1] obtain s2 where 2: "fst (?r3 s2) = Inr u" by blast
  from seqP_Inr [OF 2] obtain s3 u3 where 3: "mesh_case E ?tp s2 = (Inr u3, s3)"
    "fst (?r4 s3) = Inr u" by blast
  from seqP_Inr [OF 3(2)] obtain s4 u4 where 4: "run_case E ?tp s3 = (Inr u4, s4)" by blast
  from 3(1) 4 show ?thesis
    by (metis fst_conv old.unit.exhaust)
qed

subsection \<open>Three concrete trials\<close>

lemmas world_defs =
  example_env_def trial_spawn_def solver_def child_def example_parameters_def trial_state_def
  write_series_def example_toml_load_def example_toml_dump_def example_loadtxt_def
  vessel_doc_def impeller_doc_def mesh_doc_def

lemmas script_defs =
  trial_def assert_isdir_def ensure_dir_def mkdir_def create_case_def copytree_def
  copy_conflict_def overlay_def under_def is_file_def derive_def param_def edit_settings_def
  read_file_def open_w_def open_wb_def create_empty_def write_close_def dirname_def
  vessel_settings_def impeller_settings_def mesh_settings_def setitem_def getkey_def
  set_in_table_def set_in_first_def assign_first_def blade_keys_def fidget_keys_def
  convert_def py_div_def mesh_case_def run_case_def stage_cmd_def mesh_cleanup_cmd_def
  system_def subprocess_run_check_def popen_def system_timeout_def exits_within_def
  dead_within_def extract_results_def load_latest_def metric_dir_def persist_def
  error_vector_def

lemma trial_path_7: "trial_path_of 7 = ''Simulations/sim0007''"
  by (simp add: trial_path_of_def zero_fill4_def str_int_def digits.simps numeral_3_eq_3)

text \<open>The solver never exits by itself and is stopped at the end of its timeout.\<close>

lemma solver_stopped_world:
  "(case trial (example_env (trial_spawn (solver None) (child (Some 1) 0 (Some 1))))
          example_parameters 7 ''results/result_7.pickle'' trial_state of
      (r, s') \<Rightarrow>
        r = Inr () \<and> fsys s' ''results/result_7.pickle'' = Some (File ''pickled'') \<and>
        Open_wb ''results/result_7.pickle'' \<in> set (trace s') \<and> Terminate \<in> set (trace s'))"
  by (simp add: trial_path_7 script_defs world_defs prog_defs series_defs
      dom_map_of_conv_image_fst Let_def)

text \<open>Every stage exits with status 0, the solver after an hour.\<close>

lemma all_stages_world:
  "(case trial (example_env (trial_spawn (solver (Some 3600)) (child (Some 1) 0 (Some 1))))
          example_parameters 7 ''results/result_7.pickle'' trial_state of
      (r, s') \<Rightarrow>
        r = Inr () \<and> fsys s' ''results/result_7.pickle'' = Some (File ''pickled'') \<and>
        Open_wb ''results/result_7.pickle'' \<in> set (trace s') \<and> Terminate \<notin> set (trace s'))"
  by (simp add: trial_path_7 script_defs world_defs prog_defs series_defs
      dom_map_of_conv_image_fst Let_def)

text \<open>Every stage exits with status 0, and every \<^verbatim>\<open>rm\<close> exits with status 1.\<close>

lemma cleanup_fails_world:
  "(case trial (example_env (trial_spawn (solver (Some 3600)) (child (Some 1) 1 (Some 1))))
          example_parameters 7 ''results/result_7.pickle'' trial_state of
      (r, s') \<Rightarrow>
        r = Inl (Raised (CalledProcessError 1)) \<and> no_wb (trace s') \<and>
        fsys s' ''results/result_7.pickle'' = None)"
  by (simp add: trial_path_7 script_defs world_defs prog_defs series_defs
      dom_map_of_conv_image_fst Let_def)

subsection \<open>The stages behind a saved result\<close>

text \<open>
  Claim C2, as the code has it. Starting from a trace without a saved result, the result
  file of a trial is opened for writing only if both geometry stages reached
  \<open>Completed(0)\<close>, the mesh stage reached \<open>Completed(0)\<close> within its timeout of 50 minutes,
  each of the three cleanup commands reached \<open>Completed(0)\<close>, and the solver either reached
  \<open>Completed(0)\<close> within its timeout of 11 hours or timed out. A timeout of the solver
  does not prevent the extraction.
\<close>

theorem saved_result_requires_stages:
  assumes "no_wb (trace s)"
      and "Open_wb result_path \<in> set (trace (snd (trial E P access_id result_path s)))"
  shows "completed_0 E (stage_cmd E)
           (Some (trial_path_of access_id @ ''/phase-1-geometry-vessel'')) None \<and>
         completed_0 E (stage_cmd E)
           (Some (trial_path_of access_id @ ''/phase-2-geometry-impeller'')) None \<and>
         completed_0 E (stage_cmd E)
           (Some (trial_path_of access_id @ ''/phase-4-mesh'')) (Some (50 * 60)) \<and>
         (\<exists>f. completed_0 E (mesh_cleanup_cmd E (trial_path_of access_id) f) None None) \<and>
         (completed_0 E (stage_cmd E)
            (Some (trial_path_of access_id @ ''/phase-5-cfd'')) (Some (11 * 60 * 60)) \<or>
          timed_out E (stage_cmd E)
            (Some (trial_path_of access_id @ ''/phase-5-cfd'')) (11 * 60 * 60)) \<and>
         completed_0 E [''rm'', ''-rf'', ''constant/polyMesh'']
           (Some (trial_path_of access_id @ ''/phase-4-mesh/case'')) None \<and>
         completed_0 E [''rm'', ''-rf'', ''constant/polyMesh'']
           (Some (trial_path_of access_id @ ''/phase-5-cfd/case'')) None"
proof -
  from assms(2) have "\<not> no_wb (trace (snd (trial E P access_id result_path s)))"
    using no_wb_mem by blast
  from trial_output_requires [OF assms(1) this] obtain s3 s4 where
    "fst (mesh_case E (trial_path_of access_id) s3) = Inr ()"
    "fst (run_case E (trial_path_of access_id) s4) = Inr ()"
    by blast
  from mesh_case_Inr [OF this(1)] run_case_Inr [OF this(2)] show ?thesis
    by blast
qed

theorem saved_result_requires_stages_witness:
  "Open_wb ''results/result_7.pickle'' \<in> set (trace (snd (trial
       (example_env (trial_spawn (solver (Some 3600)) (child (Some 1) 0 (Some 1))))
       example_parameters 7 ''results/result_7.pickle'' trial_state))) \<and>
   completed_0 (example_env (trial_spawn (solver (Some 3600)) (child (Some 1) 0 (Some 1))))
     [''python3'', ''script.py''] (Some ''Simulations/sim0007/phase-4-mesh'') (Some (50 * 60)) \<and>
   completed_0 (example_env (trial_spawn (solver (Some 3600)) (child (Some 1) 0 (Some 1))))
     [''rm'', ''-rf'', ''constant/polyMesh''] (Some ''Simulations/sim0007/phase-5-cfd/case'') None"
proof -
  let ?E = "example_env (trial_spawn (solver (Some 3600)) (child (Some 1) 0 (Some 1)))"
  have 1: "no_wb (trace trial_state)"
    by (simp add: trial_state_def)
  have 2: "Open_wb ''results/result_7.pickle'' \<in> set (trace (snd (trial ?E
       example_parameters 7 ''results/result_7.pickle'' trial_state)))"
    using all_stages_world by (simp split: prod.splits)
  have 3: "stage_cmd ?E = [''python3'', ''script.py'']"
    by (simp add: stage_cmd_def example_env_def)
  from saved_result_requires_stages [OF 1 2] 2 show ?thesis
    unfolding trial_path_7 3 by simp
qed

text \<open>
  The claim as the specification states it fails: in the trial whose solver never exits
  by itself and is stopped at the end of its 11 hours, the solver has timed out and has
  not reached \<open>Completed(0)\<close>, and yet the trial returns normally with the pickled error
  vector in the result file.
\<close>

theorem solver_timeout_counterexample:
  "timed_out (example_env (trial_spawn (solver None) (child (Some 1) 0 (Some 1))))
     [''python3'', ''script.py''] (Some ''Simulations/sim0007/phase-5-cfd'') (11 * 60 * 60) \<and>
   \<not> completed_0 (example_env (trial_spawn (solver None) (child (Some 1) 0 (Some 1))))
     [''python3'', ''script.py''] (Some ''Simulations/sim0007/phase-5-cfd'')
     (Some (11 * 60 * 60)) \<and>
   fst (trial (example_env (trial_spawn (solver None) (child (Some 1) 0 (Some 1))))
          example_parameters 7 ''results/result_7.pickle'' trial_state) = Inr () \<and>
   fsys (snd (trial (example_env (trial_spawn (solver None) (child (Some 1) 0 (Some 1))))
          example_parameters 7 ''results/result_7.pickle'' trial_state))
     ''results/result_7.pickle'' = Some (File ''pickled'')"
proof -
  let ?E = "example_env (trial_spawn (solver None) (child (Some 1) 0 (Some 1)))"
  have "timed_out ?E [''python3'', ''script.py''] (Some ''Simulations/sim0007/phase-5-cfd'')
          (11 * 60 * 60)"
    by (simp add: timed_out_def example_env_def trial_spawn_def solver_def exits_within_def)
  moreover have "\<not> completed_0 ?E [''python3'', ''script.py'']
      (Some ''Simulations/sim0007/phase-5-cfd'') (Some (11 * 60 * 60))"
    by (simp add: completed_0_def example_env_def trial_spawn_def solver_def exits_within_def)
  ultimately show ?thesis
    using solver_stopped_world by (simp split: prod.splits)
qed

subsection \<open>Cleanup commands\<close>

text \<open>
  Claim C6, as the code has it. A cleanup command is run like every command without a
  timeout: when it exits with a status other than 0, \<^verbatim>\<open>CalledProcessError\<close> is raised,
  and nothing catches it. A trial in which one of the three cleanup commands does not
  reach \<open>Completed(0)\<close> does not return normally and opens no result file.
\<close>

theorem cleanup_failure_aborts:
  "(spawn E cmd cwd = Some p \<and> exits_after p = Some d \<and> returncode p \<noteq> 0 \<longrightarrow>
      fst (system E cmd cwd s) = Inl (Raised (CalledProcessError (returncode p)))) \<and>
   (no_wb (trace s) \<and>
    ((\<forall>f. \<not> completed_0 E (mesh_cleanup_cmd E (trial_path_of access_id) f) None None) \<or>
     \<not> completed_0 E [''rm'', ''-rf'', ''constant/polyMesh'']
         (Some (trial_path_of access_id @ ''/phase-4-mesh/case'')) None \<or>
     \<not> completed_0 E [''rm'', ''-rf'', ''constant/polyMesh'']
         (Some (trial_path_of access_id @ ''/phase-5-cfd/case'')) None) \<longrightarrow>
      fst (trial E P access_id result_path s) \<noteq> Inr () \<and>
      no_wb (trace (snd (trial E P access_id result_path s))))"
proof (intro conjI impI)
  assume "spawn E cmd cwd = Some p \<and> exits_after p = Some d \<and> returncode p \<noteq> 0"
  then show "fst (system E cmd cwd s) = Inl (Raised (CalledProcessError (returncode p)))"
    by (simp add: system_def subprocess_run_check_def popen_def prog_defs)
next
  assume a: "no_wb (trace s) \<and>
    ((\<forall>f. \<not> completed_0 E (mesh_cleanup_cmd E (trial_path_of access_id) f) None None) \<or>
     \<not> completed_0 E [''rm'', ''-rf'', ''constant/polyMesh'']
         (Some (trial_path_of access_id @ ''/phase-4-mesh/case'')) None \<or>
     \<not> completed_0 E [''rm'', ''-rf'', ''constant/polyMesh'']
         (Some (trial_path_of access_id @ ''/phase-5-cfd/case'')) None)"
  show "fst (trial E P access_id result_path s) \<noteq> Inr ()"
  proof
    assume "fst (trial E P access_id result_path s) = Inr ()"
    from trial_Inr_requires [OF this] obtain s3 s4 where
      "fst (mesh_case E (trial_path_of access_id) s3) = Inr ()"
      "fst (run_case E (trial_path_of access_id) s4) = Inr ()"
      by blast
    from mesh_case_Inr [OF this(1)] run_case_Inr [OF this(2)] a show False
      by blast
  qed
  show "no_wb (trace (snd (trial E P access_id result_path s)))"
  proof (rule ccontr)
    assume "\<not> no_wb (trace (snd (trial E P access_id result_path s)))"
    with a trial_output_requires [of s E P access_id result_path] obtain s3 s4 where
      "fst (mesh_case E (trial_path_of access_id) s3) = Inr ()"
      "fst (run_case E (trial_path_of access_id) s4) = Inr ()"
      by blast
    from mesh_case_Inr [OF this(1)] run_case_Inr [OF this(2)] a show False
      by blast
  qed
qed

theorem cleanup_failure_aborts_witness:
  "fst (system (example_env (trial_spawn (solver (Some 3600)) (child (Some 1) 1 (Some 1))))
          [''rm'', ''-rf'', ''constant/polyMesh''] (Some ''Simulations/sim0007/phase-4-mesh/case'')
          trial_state) = Inl (Raised (CalledProcessError 1)) \<and>
   fst (trial (example_env (trial_spawn (solver (Some 3600)) (child (Some 1) 1 (Some 1))))
          example_parameters 7 ''results/result_7.pickle'' trial_state) \<noteq> Inr () \<and>
   no_wb (trace (snd (trial
          (example_env (trial_spawn (solver (Some 3600)) (child (Some 1) 1 (Some 1))))
          example_parameters 7 ''results/result_7.pickle'' trial_state)))"
proof -
  let ?E = "example_env (trial_spawn (solver (Some 3600)) (child (Some 1) 1 (Some 1)))"
  let ?rm = "[''rm'', ''-rf'', ''constant/polyMesh'']"
  let ?cwd = "Some ''Simulations/sim0007/phase-4-mesh/case''"
  note t = cleanup_failure_aborts [of ?E ?rm ?cwd "child (Some 1) 1 (Some 1)" 1 trial_state
      7 example_parameters "''results/result_7.pickle''"]
  have 1: "spawn ?E ?rm ?cwd = Some (child (Some 1) 1 (Some 1)) \<and>
           exits_after (child (Some 1) 1 (Some 1)) = Some 1 \<and>
           returncode (child (Some 1) 1 (Some 1)) \<noteq> 0"
    by (simp add: example_env_def trial_spawn_def child_def)
  have 2: "returncode (child (Some 1) 1 (Some 1)) = 1"
    by (simp add: child_def)
  have 3: "no_wb (trace trial_state)"
    by (simp add: trial_state_def)
  have 4: "\<not> completed_0 ?E ?rm (Some (trial_path_of 7 @ ''/phase-4-mesh/case'')) None"
    by (simp add: completed_0_def example_env_def trial_spawn_def child_def)
  from t 1 2 have a: "fst (system ?E ?rm ?cwd trial_state) = Inl (Raised (CalledProcessError 1))"
    by simp
  from t 3 4 have b: "fst (trial ?E example_parameters 7 ''results/result_7.pickle'' trial_state) \<noteq> Inr () \<and>
      no_wb (trace (snd (trial ?E example_parameters 7 ''results/result_7.pickle'' trial_state)))"
    by blast
  from a b show ?thesis by blast
qed

text \<open>
  The claim as the specification states it fails: in the trial whose stages all exit
  with status 0 and whose \<^verbatim>\<open>rm\<close> exits with status 1, the failure of the first cleanup is
  not swallowed; the trial ends with \<^verbatim>\<open>CalledProcessError\<close> and saves no result.
\<close>

theorem cleanup_failure_counterexample:
  "fst (trial (example_env (trial_spawn (solver (Some 3600)) (child (Some 1) 1 (Some 1))))
          example_parameters 7 ''results/result_7.pickle'' trial_state) =
     Inl (Raised (CalledProcessError 1)) \<and>
   fsys (snd (trial (example_env (trial_spawn (solver (Some 3600)) (child (Some 1) 1 (Some 1))))
          example_parameters 7 ''results/result_7.pickle'' trial_state))
     ''results/result_7.pickle'' = None"
  using cleanup_fails_world by (simp split: prod.splits)

section \<open>Frame properties of the case builder\<close>

subsection \<open>Programs that depend on the file system only\<close>

lemma fs_onlyI:
  "(\<And>s s'. fsys s = fsys s' \<Longrightarrow> fst (m s) = fst (m s') \<and> fsys (snd (m s)) = fsys (snd (m s')))
   \<Longrightarrow> fs_only m"
  unfolding fs_only_def by blast

lemma fs_onlyD:
  "fs_only m \<Longrightarrow> fsys s = fsys s' \<Longrightarrow>
     fst (m s) = fst (m s') \<and> fsys (snd (m s)) = fsys (snd (m s'))"
  unfolding fs_only_def by blast

lemma fs_only_retP [intro!, simp]: "fs_only (retP x)"
  by (rule fs_onlyI) (simp add: retP_def)

lemma fs_only_haltP [intro!, simp]: "fs_only (haltP h)"
  by (rule fs_onlyI) (simp add: haltP_def)

lemma fs_only_raiseP [intro!, simp]: "fs_only (raiseP e)"
  unfolding raiseP_def by (rule fs_only_haltP)

lemma fs_only_liftE [intro!, simp]: "fs_only (liftE r)"
  by (rule fs_onlyI) (simp add: liftE_def)

lemma fs_only_emit [intro!, simp]: "fs_only (emit e)"
  by (rule fs_onlyI) (simp add: emit_def)

lemma fs_only_modify_fs [intro!, simp]: "fs_only (modify_fs f)"
  by (rule fs_onlyI) (simp add: modify_fs_def)

lemma fs_only_read_file [intro!, simp]: "fs_only (read_file path)"
proof (rule fs_onlyI)
  fix s s' :: state assume "fsys s = fsys s'"
  then have "fsys s path = fsys s' path" by (rule arg_cong)
  then show "fst (read_file path s) = fst (read_file path s') \<and>
      fsys (snd (read_file path s)) = fsys (snd (read_file path s'))"
    using \<open>fsys s = fsys s'\<close>
    by (simp add: read_file_def split: option.splits node.splits)
qed

lemma fs_only_create_empty [intro!, simp]: "fs_only (create_empty path)"
proof (rule fs_onlyI)
  fix s s' :: state assume eq: "fsys s = fsys s'"
  then have "fsys s path = fsys s' path" "fsys s (dirname path) = fsys s' (dirname path)"
    by simp_all
  then show "fst (create_empty path s) = fst (create_empty path s') \<and>
      fsys (snd (create_empty path s)) = fsys (snd (create_empty path s'))"
    using eq by (simp add: create_empty_def)
qed

lemma fs_only_bindP [intro!]:
  assumes "fs_only m" and "\<And>x. fs_only (f x)"
  shows "fs_only (bindP m f)"
proof (rule fs_onlyI)
  fix s s' :: state assume eq: "fsys s = fsys s'"
  obtain r t where m: "m s = (r, t)" by (cases "m s")
  obtain r' t' where m': "m s' = (r', t')" by (cases "m s'")
  from fs_onlyD [OF assms(1) eq] m m' have rr: "r' = r" and tt: "fsys t = fsys t'" by simp_all
  show "fst (bindP m f s) = fst (bindP m f s') \<and>
        fsys (snd (bindP m f s)) = fsys (snd (bindP m f s'))"
  proof (cases r)
    case (Inl h)
    with m m' rr tt show ?thesis by (simp add: bindP_def)
  next
    case (Inr x)
    have "fst (f x t) = fst (f x t') \<and> fsys (snd (f x t)) = fsys (snd (f x t'))"
      by (rule fs_onlyD [OF assms(2) tt])
    with Inr m m' rr show ?thesis by (simp add: bindP_def)
  qed
qed

lemma fs_only_seqP [intro!]: "fs_only m \<Longrightarrow> fs_only n \<Longrightarrow> fs_only (seqP m n)"
  unfolding seqP_def by (rule fs_only_bindP)

lemma fs_only_open_w [intro!, simp]: "fs_only (open_w path)"
  unfolding open_w_def by (rule fs_only_seqP) simp_all

lemma fs_only_write_close [intro!, simp]: "fs_only (write_close path c)"
  unfolding write_close_def by (rule fs_only_modify_fs)

lemma fs_only_load_case:
  "fs_only (case x of None \<Rightarrow> raiseP ValueError
      | Some settings \<Rightarrow> bindP (liftE (change settings)) (\<lambda>settings'.
           seqP (open_w path) (write_close path (toml_dump E settings'))))"
proof (cases x)
  case None
  then show ?thesis by simp
next
  case (Some settings)
  have "fs_only (bindP (liftE (change settings)) (\<lambda>settings'.
           seqP (open_w path) (write_close path (toml_dump E settings'))))"
    by (intro fs_only_bindP fs_only_seqP fs_only_liftE fs_only_open_w fs_only_write_close)
  with Some show ?thesis by simp
qed

lemma fs_only_edit_settings [intro!, simp]: "fs_only (edit_settings E path change)"
  unfolding edit_settings_def
  by (rule fs_only_bindP) (rule fs_only_read_file, rule fs_only_load_case)

subsection \<open>Programs that only rewrite files\<close>

lemma file_edit_refl [simp]: "file_edit g g paths"
  by (simp add: file_edit_def)

lemma file_edit_trans:
  "file_edit f g paths \<Longrightarrow> file_edit g h paths \<Longrightarrow> file_edit f h paths"
  unfolding file_edit_def by metis

lemma file_edit_mono: "file_edit g h A \<Longrightarrow> A \<subseteq> B \<Longrightarrow> file_edit g h B"
  unfolding file_edit_def by blast

lemma edits_filesI: "(\<And>s. file_edit (fsys s) (fsys (snd (m s))) paths) \<Longrightarrow> edits_files paths m"
  by (simp add: edits_files_def)

lemma edits_filesD: "edits_files paths m \<Longrightarrow> file_edit (fsys s) (fsys (snd (m s))) paths"
  by (simp add: edits_files_def)

lemma edits_files_mono: "edits_files A m \<Longrightarrow> A \<subseteq> B \<Longrightarrow> edits_files B m"
  unfolding edits_files_def using file_edit_mono by blast

lemma edits_files_bindP:
  assumes "edits_files paths m" and "\<And>x. edits_files paths (f x)"
  shows "edits_files paths (bindP m f)"
proof (rule edits_filesI)
  fix s :: state
  obtain r t where m: "m s = (r, t)" by (cases "m s")
  from edits_filesD [OF assms(1), of s] m have 1: "file_edit (fsys s) (fsys t) paths" by simp
  show "file_edit (fsys s) (fsys (snd (bindP m f s))) paths"
  proof (cases r)
    case (Inl h)
    with m 1 show ?thesis by (simp add: bindP_def)
  next
    case (Inr x)
    have "file_edit (fsys t) (fsys (snd (f x t))) paths"
      by (rule edits_filesD [OF assms(2)])
    with 1 have "file_edit (fsys s) (fsys (snd (f x t))) paths" by (rule file_edit_trans)
    with m Inr show ?thesis by (simp add: bindP_def)
  qed
qed

lemma edits_files_seqP:
  "edits_files paths m \<Longrightarrow> edits_files paths n \<Longrightarrow> edits_files paths (seqP m n)"
  unfolding seqP_def by (rule edits_files_bindP)

lemma edits_files_liftE [simp]: "edits_files paths (liftE r)"
  by (simp add: edits_files_def liftE_def)

lemma create_empty_fs:
  "fsys (snd (create_empty path s)) = fsys s \<or>
   fsys (snd (create_empty path s)) = (fsys s)(path \<mapsto> File [])"
  by (simp add: create_empty_def)

lemma open_w_fs:
  "fsys (snd (open_w path s)) = fsys s \<or>
   fsys (snd (open_w path s)) = (fsys s)(path \<mapsto> File [])"
  using create_empty_fs [of path "s\<lparr>trace := trace s @ [Open_w path]\<rparr>"]
  by (simp add: open_w_def prog_defs)

lemma write_after_open_fs:
  "fsys (snd (seqP (open_w path) (write_close path c) s)) = fsys s \<or>
   (\<exists>c'. fsys (snd (seqP (open_w path) (write_close path c) s)) = (fsys s)(path \<mapsto> File c'))"
proof -
  obtain r t where o: "open_w path s = (r, t)" by (cases "open_w path s")
  with open_w_fs [of path s] have t: "fsys t = fsys s \<or> fsys t = (fsys s)(path \<mapsto> File [])"
    by simp
  show ?thesis
  proof (cases r)
    case (Inl h)
    with o t show ?thesis by (auto simp: seqP_def bindP_def)
  next
    case (Inr u)
    with o have "fsys (snd (seqP (open_w path) (write_close path c) s)) = (fsys t)(path \<mapsto> File c)"
      by (simp add: seqP_def bindP_def write_close_def modify_fs_def)
    with t show ?thesis by auto
  qed
qed

lemma edit_settings_fs:
  "fsys (snd (edit_settings E path change s)) = fsys s \<or>
   (is_file (fsys s path) \<and>
    (\<exists>c. fsys (snd (edit_settings E path change s)) = (fsys s)(path \<mapsto> File c)))"
proof (cases "fsys s path")
  case None
  then show ?thesis by (simp add: edit_settings_def read_file_def bindP_def)
next
  case (Some n)
  show ?thesis
  proof (cases n)
    case Dir
    with Some show ?thesis by (simp add: edit_settings_def read_file_def bindP_def)
  next
    case (File body)
    with Some have rd: "read_file path s = (Inr body, s)" by (simp add: read_file_def)
    from Some File have isf: "is_file (fsys s path)" by (simp add: is_file_def)
    show ?thesis
    proof (cases "toml_load E body")
      case None
      with rd show ?thesis by (simp add: edit_settings_def bindP_def raiseP_def haltP_def)
    next
      case (Some doc)
      note ld = this
      show ?thesis
      proof (cases "change doc")
        case (Inl h)
        with rd ld show ?thesis by (simp add: edit_settings_def bindP_def liftE_def)
      next
        case (Inr doc')
        with rd ld have "edit_settings E path change s =
            seqP (open_w path) (write_close path (toml_dump E doc')) s"
          by (simp add: edit_settings_def bindP_def liftE_def)
        with write_after_open_fs [of path "toml_dump E doc'" s] isf show ?thesis by auto
      qed
    qed
  qed
qed

lemma edits_files_edit_settings: "edits_files {path} (edit_settings E path change)"
proof (rule edits_filesI)
  fix s
  from edit_settings_fs [of E path change s]
  show "file_edit (fsys s) (fsys (snd (edit_settings E path change s))) {path}"
  proof
    assume "fsys (snd (edit_settings E path change s)) = fsys s"
    then show ?thesis by (simp add: file_edit_def)
  next
    assume "is_file (fsys s path) \<and>
      (\<exists>c. fsys (snd (edit_settings E path change s)) = (fsys s)(path \<mapsto> File c))"
    then obtain c where "is_file (fsys s path)"
      "fsys (snd (edit_settings E path change s)) = (fsys s)(path \<mapsto> File c)" by blast
    then show ?thesis by (simp add: file_edit_def is_file_def)
  qed
qed

subsection \<open>Copying the template over an edited workspace\<close>

lemma file_edit_outside: "file_edit g h paths \<Longrightarrow> q \<notin> paths \<Longrightarrow> h q = g q"
  unfolding file_edit_def by blast

lemma file_edit_not_file: "file_edit g h paths \<Longrightarrow> \<not> is_file (g q) \<Longrightarrow> h q = g q"
  unfolding file_edit_def by blast

lemma file_edit_not_file': "file_edit g h paths \<Longrightarrow> \<not> is_file (h q) \<Longrightarrow> h q = g q"
  unfolding file_edit_def by blast

lemma not_is_file_Dir [simp]: "\<not> is_file (Some Dir)"
  by (simp add: is_file_def)

lemma prefix_slash_cases:
  assumes "prefix (a @ ''/'') z" and "prefix (b @ ''/'') z" and "CHR ''/'' \<notin> set a"
  shows "prefix (a @ ''/'') (b @ ''/'')"
proof -
  from assms(1,2) have "prefix (a @ ''/'') (b @ ''/'') \<or> prefix (b @ ''/'') (a @ ''/'')"
    by (rule prefix_same_cases)
  then show ?thesis
  proof
    assume "prefix (b @ ''/'') (a @ ''/'')"
    then have "b @ ''/'' = a @ ''/'' \<or> prefix (b @ ''/'') a"
      by (simp add: prefix_snoc) 
    then show ?thesis
    proof
      assume "prefix (b @ ''/'') a"
      then have "CHR ''/'' \<in> set a" by (auto simp: prefix_def)
      with assms(3) show ?thesis by simp
    qed simp
  qed
qed

lemma not_under_src:
  assumes "\<not> prefix (src @ ''/'') (dst @ ''/'')" and "CHR ''/'' \<notin> set src"
  shows "\<not> under src (dst @ ''/'' @ x)"
proof
  assume "under src (dst @ ''/'' @ x)"
  then have "prefix (src @ ''/'') (dst @ ''/'' @ x)" by (simp add: under_def)
  moreover have "prefix (dst @ ''/'') (dst @ ''/'' @ x)" by simp
  ultimately have "prefix (src @ ''/'') (dst @ ''/'')"
    using assms(2) by (rule prefix_slash_cases)
  with assms(1) show False by simp
qed

lemma not_under_dst:
  assumes "\<not> prefix (src @ ''/'') (dst @ ''/'')" and "CHR ''/'' \<notin> set src"
  shows "\<not> under dst (src @ ''/'' @ x)"
proof
  assume "under dst (src @ ''/'' @ x)"
  then have "prefix (dst @ ''/'') (src @ ''/'' @ x)" by (simp add: under_def)
  moreover have "prefix (src @ ''/'') (src @ ''/'' @ x)" by simp
  ultimately have "prefix (src @ ''/'') (dst @ ''/'') \<or> prefix (dst @ ''/'') (src @ ''/'')"
    using prefix_same_cases by blast
  then show False
  proof
    assume "prefix (src @ ''/'') (dst @ ''/'')"
    with assms(1) show False by simp
  next
    assume "prefix (dst @ ''/'') (src @ ''/'')"
    then have "dst @ ''/'' = src @ ''/'' \<or> prefix (dst @ ''/'') src"
      by (simp add: prefix_snoc)
    then show False
    proof
      assume "dst @ ''/'' = src @ ''/''"
      with assms(1) show False by simp
    next
      assume "prefix (dst @ ''/'') src"
      then have "CHR ''/'' \<in> set src" by (auto simp: prefix_def)
      with assms(2) show False by simp
    qed
  qed
qed

lemma under_split: "under d p \<Longrightarrow> \<exists>rel. p = d @ ''/'' @ rel"
  by (auto simp: under_def prefix_def)

lemma under_src_facts:
  assumes A: "\<not> prefix (src @ ''/'') (dst @ ''/'')" and N: "CHR ''/'' \<notin> set src"
      and u: "under src t"
  shows "t \<noteq> dst" and "\<not> under dst t"
proof -
  from under_split [OF u] obtain rel where t: "t = src @ ''/'' @ rel" by blast
  show "\<not> under dst t" unfolding t by (rule not_under_dst [OF A N])
  show "t \<noteq> dst"
  proof
    assume "t = dst"
    with t have "dst @ ''/'' = (src @ ''/'') @ (rel @ ''/'')" by simp
    then have "prefix (src @ ''/'') (dst @ ''/'')" by (metis prefixI)
    with A show False by simp
  qed
qed

lemma overlay_id_under_src:
  assumes A: "\<not> prefix (src @ ''/'') (dst @ ''/'')" and N: "CHR ''/'' \<notin> set src"
      and u: "under src t"
  shows "overlay f src dst t = f t"
  using under_src_facts [OF A N u] by (simp add: overlay_def)

lemma edited_under_src:
  assumes A: "\<not> prefix (src @ ''/'') (dst @ ''/'')" and N: "CHR ''/'' \<notin> set src"
      and fe: "file_edit (overlay f src dst) h paths"
      and paths: "\<forall>q \<in> paths. under dst q \<and> f (src @ drop (length dst) q) \<noteq> None"
      and u: "under src t"
  shows "h t = f t"
proof -
  from under_src_facts [OF A N u] paths have "t \<notin> paths" by blast
  with fe have "h t = overlay f src dst t" by (rule file_edit_outside)
  with overlay_id_under_src [OF A N u] show ?thesis by simp
qed

lemma rebase_under:
  assumes "under dst q"
  shows "under src (src @ drop (length dst) q)"
proof -
  from under_split [OF assms] obtain rel where "q = dst @ ''/'' @ rel" by blast
  then show ?thesis by (simp add: under_def)
qed

lemma overlay_absorbs:
  assumes A: "\<not> prefix (src @ ''/'') (dst @ ''/'')" and N: "CHR ''/'' \<notin> set src"
      and fe: "file_edit (overlay f src dst) h paths"
      and paths: "\<forall>q \<in> paths. under dst q \<and> f (src @ drop (length dst) q) \<noteq> None"
  shows "overlay h src dst = overlay f src dst"
proof (rule ext)
  fix q
  show "overlay h src dst q = overlay f src dst q"
  proof (cases "q = dst")
    case True
    then show ?thesis by (simp add: overlay_def)
  next
    case ne: False
    show ?thesis
    proof (cases "under dst q")
      case True
      let ?t = "src @ drop (length dst) q"
      have ht: "h ?t = f ?t"
        by (rule edited_under_src [OF A N fe paths rebase_under [OF True]])
      show ?thesis
      proof (cases "f ?t")
        case None
        with paths have "q \<notin> paths" by blast
        with fe have "h q = overlay f src dst q" by (rule file_edit_outside)
        with ne True None ht show ?thesis by (simp add: overlay_def)
      next
        case (Some n)
        with ne True ht show ?thesis by (simp add: overlay_def)
      qed
    next
      case False
      with paths have "q \<notin> paths" by blast
      with fe have "h q = overlay f src dst q" by (rule file_edit_outside)
      with ne False show ?thesis by (simp add: overlay_def)
    qed
  qed
qed

lemma copy_again_checks:
  assumes A: "\<not> prefix (src @ ''/'') (dst @ ''/'')" and N: "CHR ''/'' \<notin> set src"
      and fe: "file_edit (overlay f src dst) h paths"
      and paths: "\<forall>q \<in> paths. under dst q \<and> f (src @ drop (length dst) q) \<noteq> None"
      and dir: "f src = Some Dir"
  shows "h src = Some Dir" and "\<not> is_file (h dst)" and "\<not> copy_conflict h src dst"
proof -
  have "src \<noteq> dst" using A by auto
  moreover have "\<not> under dst src"
  proof
    assume "under dst src"
    then have "CHR ''/'' \<in> set src" by (auto simp: under_def prefix_def)
    with N show False by simp
  qed
  ultimately have g: "overlay f src dst src = Some Dir" using dir by (simp add: overlay_def)
  have "\<not> is_file (overlay f src dst src)" unfolding g by simp
  with fe have "h src = overlay f src dst src" by (rule file_edit_not_file)
  with g show "h src = Some Dir" by simp
  have gd: "overlay f src dst dst = Some Dir" by (simp add: overlay_def)
  have "\<not> is_file (overlay f src dst dst)" unfolding gd by simp
  with fe have "h dst = overlay f src dst dst" by (rule file_edit_not_file)
  with gd show "\<not> is_file (h dst)" by simp
  show "\<not> copy_conflict h src dst"
  proof
    assume "copy_conflict h src dst"
    then obtain q where q: "q \<in> dom h" "under src q"
      and c: "(is_file (h q) \<and> h (dst @ drop (length src) q) = Some Dir) \<or>
              (h q = Some Dir \<and> is_file (h (dst @ drop (length src) q)))"
      by (auto simp: copy_conflict_def)
    let ?q' = "dst @ drop (length src) q"
    from under_split [OF q(2)] obtain rel where rel: "q = src @ ''/'' @ rel" by blast
    have hq: "h q = f q" by (rule edited_under_src [OF A N fe paths q(2)])
    from q(1) have "h q \<noteq> None" by (simp add: dom_def)
    with hq have fq: "f q \<noteq> None" by simp
    have q': "?q' = dst @ ''/'' @ rel" using rel by simp
    then have "under dst ?q'" "?q' \<noteq> dst" by (simp_all add: under_def)
    moreover have "src @ drop (length dst) ?q' = q" using rel by simp
    ultimately have gq': "overlay f src dst ?q' = f q" using fq by (auto simp: overlay_def)
    from c show False
    proof
      assume a: "is_file (h q) \<and> h ?q' = Some Dir"
      then have "\<not> is_file (h ?q')" by simp
      with fe have "h ?q' = overlay f src dst ?q'" by (rule file_edit_not_file')
      with gq' a have "f q = Some Dir" by simp
      moreover from a hq have "is_file (f q)" by simp
      ultimately show False by simp
    next
      assume a: "h q = Some Dir \<and> is_file (h ?q')"
      with hq gq' have d: "overlay f src dst ?q' = Some Dir" by simp
      then have "\<not> is_file (overlay f src dst ?q')" by simp
      with fe have "h ?q' = overlay f src dst ?q'" by (rule file_edit_not_file)
      with d a show False by simp
    qed
  qed
qed

section \<open>Properties of the case builder\<close>

lemma copytree_Inr:
  assumes "copytree src dst s = (Inr u, s')"
  shows "fsys s src = Some Dir" and "s' = s\<lparr>fsys := overlay (fsys s) src dst\<rparr>"
  using assms by (auto simp: copytree_def split: if_splits)

lemma copytree_ok:
  assumes "fsys s src = Some Dir" and "\<not> is_file (fsys s dst)"
      and "\<not> copy_conflict (fsys s) src dst"
  shows "copytree src dst s = (Inr (), s\<lparr>fsys := overlay (fsys s) src dst\<rparr>)"
  using assms by (simp add: copytree_def)

lemma configure_fs_only:
  "fs_only (bindP (liftE (derive P)) (\<lambda>d.
     seqP (edit_settings E (tp @ ''/phase-1-geometry-vessel/settings.toml'') (vessel_settings d))
    (seqP (edit_settings E (tp @ ''/phase-2-geometry-impeller/settings.toml'') (impeller_settings P d))
          (edit_settings E (tp @ ''/phase-4-mesh/settings.toml'') (mesh_settings d)))))"
  by (intro fs_only_bindP fs_only_seqP fs_only_liftE fs_only_edit_settings)

lemma configure_edits_files:
  "edits_files {tp @ ''/phase-1-geometry-vessel/settings.toml'',
                tp @ ''/phase-2-geometry-impeller/settings.toml'',
                tp @ ''/phase-4-mesh/settings.toml''}
     (bindP (liftE (derive P)) (\<lambda>d.
     seqP (edit_settings E (tp @ ''/phase-1-geometry-vessel/settings.toml'') (vessel_settings d))
    (seqP (edit_settings E (tp @ ''/phase-2-geometry-impeller/settings.toml'') (impeller_settings P d))
          (edit_settings E (tp @ ''/phase-4-mesh/settings.toml'') (mesh_settings d)))))"
  by (intro edits_files_bindP edits_files_seqP edits_files_liftE
      edits_files_mono [OF edits_files_edit_settings]) simp_all

text \<open>
  Claim C9. When the case builder has run to its end on a workspace outside the template
  tree, with a template that holds the three settings documents, running it again on the
  workspace it has left, with the same parameters, runs to its end as well and leaves
  every file as the first run left it: the three documents are the same byte for byte.
\<close>

theorem create_case_idempotent:
  assumes run1: "create_case E P trial_path s = (Inr (), s1)"
      and outside: "\<not> prefix ''Template/'' (trial_path @ ''/'')"
      and t1: "fsys s ''Template/phase-1-geometry-vessel/settings.toml'' \<noteq> None"
      and t2: "fsys s ''Template/phase-2-geometry-impeller/settings.toml'' \<noteq> None"
      and t4: "fsys s ''Template/phase-4-mesh/settings.toml'' \<noteq> None"
  shows "\<exists>s2. create_case E P trial_path s1 = (Inr (), s2) \<and> fsys s2 = fsys s1"
proof -
  let ?paths = "{trial_path @ ''/phase-1-geometry-vessel/settings.toml'',
                 trial_path @ ''/phase-2-geometry-impeller/settings.toml'',
                 trial_path @ ''/phase-4-mesh/settings.toml''}"
  let ?rest = "bindP (liftE (derive P)) (\<lambda>d.
     seqP (edit_settings E (trial_path @ ''/phase-1-geometry-vessel/settings.toml'') (vessel_settings d))
    (seqP (edit_settings E (trial_path @ ''/phase-2-geometry-impeller/settings.toml'') (impeller_settings P d))
          (edit_settings E (trial_path @ ''/phase-4-mesh/settings.toml'') (mesh_settings d))))"
  have cc: "create_case E P trial_path = seqP (copytree ''Template'' trial_path) ?rest"
    by (simp add: create_case_def)
  have A: "\<not> prefix (''Template'' @ ''/'') (trial_path @ ''/'')" using outside by simp
  have N: "CHR ''/'' \<notin> set ''Template''" by simp
  from seqP_Inr [of "copytree ''Template'' trial_path" ?rest s "()"] run1 cc
  obtain u sA where ct: "copytree ''Template'' trial_path s = (Inr u, sA)"
    and restA': "fst (?rest sA) = Inr ()"
    by auto
  from run1 cc ct have restA: "?rest sA = (Inr (), s1)"
    by (simp add: seqP_def bindP_def)
  from copytree_Inr [OF ct] have dir: "fsys s ''Template'' = Some Dir"
    and sA: "fsys sA = overlay (fsys s) ''Template'' trial_path" by simp_all
  have "file_edit (fsys sA) (fsys (snd (?rest sA))) ?paths"
    by (rule edits_filesD [OF configure_edits_files])
  with restA
  have fe: "file_edit (overlay (fsys s) ''Template'' trial_path) (fsys s1) ?paths"
    by (simp add: sA)
  have paths: "\<forall>q \<in> ?paths. under trial_path q \<and>
      fsys s (''Template'' @ drop (length trial_path) q) \<noteq> None"
    using t1 t2 t4 by (simp add: under_def)
  have ov: "overlay (fsys s1) ''Template'' trial_path = overlay (fsys s) ''Template'' trial_path"
    by (rule overlay_absorbs [OF A N fe paths])
  have "copytree ''Template'' trial_path s1 =
          (Inr (), s1\<lparr>fsys := overlay (fsys s1) ''Template'' trial_path\<rparr>)"
    by (rule copytree_ok) (rule copy_again_checks [OF A N fe paths dir])+
  then have ct2: "copytree ''Template'' trial_path s1 = (Inr (), s1\<lparr>fsys := fsys sA\<rparr>)"
    by (simp add: ov sA)
  have same: "fsys (s1\<lparr>fsys := fsys sA\<rparr>) = fsys sA" by simp
  have "fst (?rest (s1\<lparr>fsys := fsys sA\<rparr>)) = fst (?rest sA) \<and>
        fsys (snd (?rest (s1\<lparr>fsys := fsys sA\<rparr>))) = fsys (snd (?rest sA))"
    by (rule fs_onlyD [OF configure_fs_only same])
  with restA
  have r: "fst (?rest (s1\<lparr>fsys := fsys sA\<rparr>)) = Inr ()"
          "fsys (snd (?rest (s1\<lparr>fsys := fsys sA\<rparr>))) = fsys s1"
    by simp_all
  have "create_case E P trial_path s1 = ?rest (s1\<lparr>fsys := fsys sA\<rparr>)"
    unfolding cc using ct2 by (simp add: seqP_def bindP_def)
  with r show ?thesis
    by (cases "?rest (s1\<lparr>fsys := fsys sA\<rparr>)") auto
qed

theorem create_case_idempotent_witness:
  "fst (create_case (example_env no_spawn) example_parameters ''Simulations/sim0007''
          trial_state) = Inr () \<and>
   fsys (snd (create_case (example_env no_spawn) example_parameters ''Simulations/sim0007''
          trial_state)) ''Simulations/sim0007/phase-4-mesh/settings.toml'' =
     Some (File ''new RotationVolume'') \<and>
   (\<exists>s2. create_case (example_env no_spawn) example_parameters ''Simulations/sim0007''
            (snd (create_case (example_env no_spawn) example_parameters
                    ''Simulations/sim0007'' trial_state)) = (Inr (), s2) \<and>
         fsys s2 =
           fsys (snd (create_case (example_env no_spawn) example_parameters
                   ''Simulations/sim0007'' trial_state)))"
proof -
  let ?E = "example_env no_spawn"
  let ?run = "create_case ?E example_parameters ''Simulations/sim0007'' trial_state"
  have ev: "(case ?run of (r, s') \<Rightarrow>
      r = Inr () \<and>
      fsys s' ''Simulations/sim0007/phase-4-mesh/settings.toml'' =
        Some (File ''new RotationVolume''))"
    by (simp add: script_defs world_defs prog_defs dom_map_of_conv_image_fst Let_def)
  then have 1: "?run = (Inr (), snd ?run)"
    by (cases ?run) simp
  have 2: "\<not> prefix ''Template/'' (''Simulations/sim0007'' @ ''/'')"
    by simp
  have 3: "fsys trial_state ''Template/phase-1-geometry-vessel/settings.toml'' \<noteq> None"
    "fsys trial_state ''Template/phase-2-geometry-impeller/settings.toml'' \<noteq> None"
    "fsys trial_state ''Template/phase-4-mesh/settings.toml'' \<noteq> None"
    by (simp_all add: trial_state_def)
  from create_case_idempotent [OF 1 2 3] ev 1 show ?thesis
    by (simp split: prod.splits)
qed

text \<open>Every trial directory that the script names lies outside the template tree.\<close>

lemma trial_path_outside_template: "\<not> prefix ''Template/'' (trial_path_of access_id @ ''/'')"
  by (simp add: trial_path_of_def)

end
